theory Spec2Isabelle
  imports Main "HOL-Library.AList"
begin

section \<open>Data model\<close>

text \<open>
  The recorder backend keeps video metadata in a Postgres table \<open>videos\<close>, the video
  bytes in an S3-compatible bucket, and snapshots in the grouped key-value store that the
  Motia framework hands to every step as \<open>state\<close>.  Timestamps (\<open>NOW()\<close>,
  \<open>new Date()\<close>) are natural numbers; sizes are integers (\<open>BIGINT\<close>,
  \<open>Buffer.length\<close>); byte buffers are strings.
\<close>

text \<open>\<open>interface VideoMetadata\<close> of the S3 service.\<close>

record VideoMetadata =
  vm_id :: string
  vm_filename :: string
  vm_contentType :: string
  vm_size :: int
  vm_createdAt :: nat
  vm_s3Key :: string
  vm_s3Url :: string

text \<open>A row of the table \<open>videos\<close>; \<open>id\<close> is its primary key.\<close>

record video_row =
  row_id :: string
  row_filename :: string
  row_content_type :: string
  row_size :: int
  row_created_at :: nat
  row_s3_key :: string
  row_public_url :: string

text \<open>The object cached under \<open>upload-urls\<close> by the presigned-URL step.\<close>

record upload_url_info =
  uu_uploadUrl :: string
  uu_videoId :: string
  uu_s3Key :: string
  uu_filename :: string
  uu_contentType :: string
  uu_createdAt :: nat

text \<open>
  Values held by the state store: a metadata snapshot (group \<open>videos\<close>), a list
  response \<open>{videos, count}\<close> (group \<open>video-lists\<close>), an upload grant (group
  \<open>upload-urls\<close>) and a boolean (group \<open>s3-verifications\<close>).
\<close>

datatype cache_value =
    CVideo VideoMetadata
  | CList "VideoMetadata list" nat
  | CUploadUrl upload_url_info
  | CBool bool

text \<open>The payload of the topic \<open>video-uploaded\<close>, input of the reconciler.\<close>

record upload_event =
  ue_videoId :: string
  ue_s3Key :: string
  ue_filename :: string
  ue_contentType :: string
  ue_size :: int
  ue_publicUrl :: string

datatype event =
    VideoUploaded upload_event
  | VideoUploadInitiated string string string string int
  | VideoDeleted string string string

text \<open>
  Every call that leaves the process: state store, database statement, bucket request,
  URL signer, event bus.  Each of them may throw.
\<close>

datatype call =
    StateGet string string
  | StateSet string string
  | StateDelete string string
  | StateClear string
  | StateGetGroup string
  | DbCreateTable
  | DbAddColumn
  | DbBackfill
  | DbUpsert string
  | DbSelectById string
  | DbSelectRecent
  | DbDelete string
  | S3Put string
  | S3Head string
  | S3PresignGet string
  | S3PresignPut string
  | Emit string

datatype error = Failed call

text \<open>
  The world a step runs in: the flag \<open>initialized\<close> of the db module, the table, the
  bucket, the state store (keyed by group and key), the events emitted and the log of the
  external calls attempted so far, in order.
\<close>

record world =
  initialized :: bool
  videos :: "video_row list"
  blobs :: "(string \<times> string) list"
  cache :: "((string \<times> string) \<times> cache_value) list"
  emitted :: "event list"
  trace :: "call list"

text \<open>
  What one run of a step receives from outside: which external calls throw, the clock,
  the result of \<open>randomUUID()\<close>, the process environment (\<open>S3_USE_PRESIGNED\<close>,
  \<open>S3_PUBLIC_URL\<close>), the URLs the signer of the AWS SDK hands out, and the base64
  decoder of \<open>Buffer.from\<close>.
\<close>

record env =
  faults :: "call \<Rightarrow> bool"
  now :: nat
  uuid :: string
  usePresigned :: bool
  publicUrlBase :: string
  signedGetUrl :: "string \<Rightarrow> string"
  signedPutUrl :: "string \<Rightarrow> string"
  base64 :: "string \<Rightarrow> string"

section \<open>Effects: state passing with exceptions\<close>

type_synonym 'a io = "world \<Rightarrow> (error + 'a) \<times> world"

definition ret :: "'a \<Rightarrow> 'a io" where
  "ret a = (\<lambda>w. (Inr a, w))"

definition throw :: "error \<Rightarrow> 'a io" where
  "throw x = (\<lambda>w. (Inl x, w))"

definition bnd :: "'a io \<Rightarrow> ('a \<Rightarrow> 'b io) \<Rightarrow> 'b io" where
  "bnd m f = (\<lambda>w. case m w of (Inl x, w') \<Rightarrow> (Inl x, w') | (Inr a, w') \<Rightarrow> f a w')"

definition reads :: "(world \<Rightarrow> 'a) \<Rightarrow> 'a io" where
  "reads g = (\<lambda>w. (Inr (g w), w))"

definition modify :: "(world \<Rightarrow> world) \<Rightarrow> unit io" where
  "modify g = (\<lambda>w. (Inr (), g w))"

text \<open>An external call is logged, then throws if the run's fault plan says so.\<close>

definition attempt :: "env \<Rightarrow> call \<Rightarrow> unit io" where
  "attempt e c = (\<lambda>w. (if faults e c then Inl (Failed c) else Inr (),
                        w\<lparr>trace := trace w @ [c]\<rparr>))"

text \<open>\<open>try { m } catch { /* ignore */ }\<close>\<close>

definition try_ignore :: "'a io \<Rightarrow> unit io" where
  "try_ignore m = (\<lambda>w. case m w of (Inl x, w') \<Rightarrow> (Inr (), w') | (Inr a, w') \<Rightarrow> (Inr (), w'))"

section \<open>The state store (Motia \<open>state\<close>)\<close>

definition state_get :: "env \<Rightarrow> string \<Rightarrow> string \<Rightarrow> cache_value option io" where
  "state_get e g k =
     bnd (attempt e (StateGet g k)) (\<lambda>_. reads (\<lambda>w. map_of (cache w) (g, k)))"

definition state_set :: "env \<Rightarrow> string \<Rightarrow> string \<Rightarrow> cache_value \<Rightarrow> unit io" where
  "state_set e g k v =
     bnd (attempt e (StateSet g k))
       (\<lambda>_. modify (\<lambda>w. w\<lparr>cache := AList.update (g, k) v (cache w)\<rparr>))"

definition state_delete :: "env \<Rightarrow> string \<Rightarrow> string \<Rightarrow> unit io" where
  "state_delete e g k =
     bnd (attempt e (StateDelete g k))
       (\<lambda>_. modify (\<lambda>w. w\<lparr>cache := AList.delete (g, k) (cache w)\<rparr>))"

definition state_clear :: "env \<Rightarrow> string \<Rightarrow> unit io" where
  "state_clear e g =
     bnd (attempt e (StateClear g))
       (\<lambda>_. modify (\<lambda>w. w\<lparr>cache := filter (\<lambda>p. fst (fst p) \<noteq> g) (cache w)\<rparr>))"

definition state_getGroup :: "env \<Rightarrow> string \<Rightarrow> cache_value list io" where
  "state_getGroup e g =
     bnd (attempt e (StateGetGroup g))
       (\<lambda>_. reads (\<lambda>w. map snd (filter (\<lambda>p. fst (fst p) = g) (cache w))))"

text \<open>JavaScript truthiness of a stored value: only \<open>false\<close> is falsy among them.\<close>

fun truthy :: "cache_value \<Rightarrow> bool" where
  "truthy (CBool b) = b"
| "truthy _ = True"

section \<open>The database module\<close>

text \<open>
  \<open>ensureVideoTable\<close>: the flag is set before the first statement runs; the
  \<open>ALTER TABLE\<close> has a try/catch of its own.  The three statements change no row of
  the table as modelled: every row written by this program has a \<open>public_url\<close>.
\<close>

definition ensureVideoTable :: "env \<Rightarrow> unit io" where
  "ensureVideoTable e = (\<lambda>w.
     if initialized w then (Inr (), w)
     else bnd (modify (\<lambda>w. w\<lparr>initialized := True\<rparr>)) (\<lambda>_.
          bnd (attempt e DbCreateTable) (\<lambda>_.
          bnd (try_ignore (attempt e DbAddColumn)) (\<lambda>_.
          attempt e DbBackfill))) w)"

text \<open>
  \<open>INSERT ... ON CONFLICT (id) DO UPDATE SET public_url = $6\<close>: a row with the id
  keeps every column but \<open>public_url\<close>; without one, the new row is appended.
\<close>

definition upsert_row :: "video_row \<Rightarrow> video_row list \<Rightarrow> video_row list" where
  "upsert_row r rows =
     (if list_ex (\<lambda>x. row_id x = row_id r) rows
      then map (\<lambda>x. if row_id x = row_id r
                     then x\<lparr>row_public_url := row_public_url r\<rparr> else x) rows
      else rows @ [r])"

definition row_to_metadata :: "video_row \<Rightarrow> VideoMetadata" where
  "row_to_metadata r =
     \<lparr>vm_id = row_id r, vm_filename = row_filename r, vm_contentType = row_content_type r,
      vm_size = row_size r, vm_createdAt = row_created_at r, vm_s3Key = row_s3_key r,
      vm_s3Url = row_public_url r\<rparr>"

section \<open>S3Service\<close>

text \<open>\<open>filename.split('.').pop() || 'webm'\<close>\<close>

definition extension_of :: "string \<Rightarrow> string" where
  "extension_of filename =
     (let x = rev (takeWhile (\<lambda>c. c \<noteq> CHR ''.'') (rev filename))
      in if x = [] then ''webm'' else x)"

definition make_s3Key :: "string \<Rightarrow> string \<Rightarrow> string" where
  "make_s3Key videoId filename = ''videos/'' @ videoId @ ''.'' @ extension_of filename"

definition uploadVideo :: "env \<Rightarrow> string \<Rightarrow> string \<Rightarrow> string \<Rightarrow> (string \<times> string \<times> string) io" where
  "uploadVideo e buffer filename contentType =
     (let videoId = uuid e; s3Key = make_s3Key videoId filename in
      bnd (attempt e (S3Put s3Key)) (\<lambda>_.
      bnd (modify (\<lambda>w. w\<lparr>blobs := AList.update s3Key buffer (blobs w)\<rparr>)) (\<lambda>_.
      bnd (attempt e (S3PresignGet s3Key)) (\<lambda>_.
      ret (videoId, s3Key, publicUrlBase e @ ''/'' @ s3Key)))))"

definition generateUploadUrl :: "env \<Rightarrow> string \<Rightarrow> string \<Rightarrow> (string \<times> string \<times> string) io" where
  "generateUploadUrl e filename contentType =
     (let videoId = uuid e; s3Key = make_s3Key videoId filename in
      bnd (attempt e (S3PresignPut s3Key)) (\<lambda>_.
      ret (signedPutUrl e s3Key, videoId, s3Key)))"

definition generatePublicUrl :: "env \<Rightarrow> string \<Rightarrow> string io" where
  "generatePublicUrl e s3Key =
     (if usePresigned e
      then bnd (attempt e (S3PresignGet s3Key)) (\<lambda>_. ret (signedGetUrl e s3Key))
      else ret (publicUrlBase e @ ''/'' @ s3Key))"

text \<open>\<open>verifyObjectExists\<close> catches every error of the HEAD request and answers false.\<close>

definition verifyObjectExists :: "env \<Rightarrow> string \<Rightarrow> bool io" where
  "verifyObjectExists e s3Key = (\<lambda>w.
     case attempt e (S3Head s3Key) w of
       (Inl x, w') \<Rightarrow> (Inr False, w')
     | (Inr u, w') \<Rightarrow> (Inr (map_of (blobs w') s3Key \<noteq> None), w'))"

section \<open>VideoService\<close>

definition createVideoMetadata ::
  "env \<Rightarrow> string \<Rightarrow> string \<Rightarrow> string \<Rightarrow> int \<Rightarrow> string \<Rightarrow> string option \<Rightarrow> VideoMetadata io" where
  "createVideoMetadata e videoId filename contentType sz s3Key publicUrl =
     bnd (ensureVideoTable e) (\<lambda>_.
     bnd (case publicUrl of
            None \<Rightarrow> generatePublicUrl e s3Key
          | Some u \<Rightarrow> if u = [] then generatePublicUrl e s3Key else ret u) (\<lambda>finalPublicUrl.
     bnd (attempt e (DbUpsert videoId)) (\<lambda>_.
     bnd (modify (\<lambda>w. w\<lparr>videos := upsert_row
            \<lparr>row_id = videoId, row_filename = filename, row_content_type = contentType,
             row_size = sz, row_created_at = now e, row_s3_key = s3Key,
             row_public_url = finalPublicUrl\<rparr> (videos w)\<rparr>)) (\<lambda>_.
     ret \<lparr>vm_id = videoId, vm_filename = filename, vm_contentType = contentType,
          vm_size = sz, vm_createdAt = now e, vm_s3Key = s3Key,
          vm_s3Url = finalPublicUrl\<rparr>))))"

definition find_row :: "string \<Rightarrow> video_row list \<Rightarrow> video_row option" where
  "find_row videoId rows = find (\<lambda>r. row_id r = videoId) rows"

definition getVideoMetadata :: "env \<Rightarrow> string \<Rightarrow> VideoMetadata option io" where
  "getVideoMetadata e videoId =
     bnd (ensureVideoTable e) (\<lambda>_.
     bnd (attempt e (DbSelectById videoId)) (\<lambda>_.
     reads (\<lambda>w. map_option row_to_metadata (find_row videoId (videos w)))))"

text \<open>
  \<open>ORDER BY created_at DESC LIMIT $1\<close>.  The limit is \<open>None\<close> for \<open>NaN\<close>; the
  database rejects \<open>NaN\<close> and a negative limit.
\<close>

definition listVideos :: "env \<Rightarrow> int option \<Rightarrow> VideoMetadata list io" where
  "listVideos e limit =
     bnd (ensureVideoTable e) (\<lambda>_.
     bnd (attempt e DbSelectRecent) (\<lambda>_.
     case limit of
       None \<Rightarrow> throw (Failed DbSelectRecent)
     | Some n \<Rightarrow>
         if n < 0 then throw (Failed DbSelectRecent)
         else reads (\<lambda>w. map row_to_metadata
                (take (nat n) (rev (sort_key row_created_at (videos w)))))))"

text \<open>\<open>DELETE ... RETURNING id\<close>; the result says whether a row was returned.\<close>

definition deleteVideo :: "env \<Rightarrow> string \<Rightarrow> bool io" where
  "deleteVideo e videoId =
     bnd (ensureVideoTable e) (\<lambda>_.
     bnd (attempt e (DbDelete videoId)) (\<lambda>_.
     bnd (reads (\<lambda>w. list_ex (\<lambda>r. row_id r = videoId) (videos w))) (\<lambda>deleted.
     bnd (modify (\<lambda>w. w\<lparr>videos := filter (\<lambda>r. row_id r \<noteq> videoId) (videos w)\<rparr>)) (\<lambda>_.
     ret deleted))))"

section \<open>The steps\<close>

datatype body =
    BError string
  | BException error
  | BValue cache_value
  | BUploaded string string string string
  | BGrant string string string
  | BDeleted string string

record response =
  status :: nat
  body :: body

text \<open>
  Every API handler is one \<open>try\<close> block whose \<open>catch\<close> answers 500 with the
  error's message.
\<close>

definition api_catch :: "response io \<Rightarrow> world \<Rightarrow> response \<times> world" where
  "api_catch m = (\<lambda>w. case m w of
       (Inl x, w') \<Rightarrow> (\<lparr>status = 500, body = BException x\<rparr>, w')
     | (Inr r, w') \<Rightarrow> (r, w'))"

subsection \<open>GetVideo\<close>

definition GetVideo_handler :: "env \<Rightarrow> string \<Rightarrow> world \<Rightarrow> response \<times> world" where
  "GetVideo_handler e videoId = api_catch (
     bnd (getVideoMetadata e videoId) (\<lambda>video.
     case video of
       None \<Rightarrow> ret \<lparr>status = 404, body = BError ''Video not found''\<rparr>
     | Some v \<Rightarrow> ret \<lparr>status = 200, body = BValue (CVideo v)\<rparr>))"

subsection \<open>UploadVideo\<close>

text \<open>
  The request body is a raw \<open>Buffer\<close>, or a JSON object (of which only the fields
  \<open>video\<close>, when it is a string, \<open>filename\<close> and \<open>contentType\<close> are read), or
  anything else; \<open>req.file\<close> is set when multer parsed a multipart upload.
\<close>

datatype req_body =
    BufferBody string
  | JsonBody "string option" "string option" "string option"
  | OtherBody

record multer_file =
  f_buffer :: string
  f_originalname :: string
  f_mimetype :: string

record upload_request =
  req_body :: req_body
  req_file :: "multer_file option"
  h_x_filename :: "string option"
  h_content_type :: "string option"

text \<open>Decimal rendering of a number, for \<open>Date.now()\<close> and the limit in a template.\<close>

fun decimal :: "nat \<Rightarrow> string" where
  "decimal n = (if n < 10 then [char_of (n + 48)]
                else decimal (n div 10) @ [char_of (n mod 10 + 48)])"

declare decimal.simps [simp del]

text \<open>\<open>x || d\<close> on an optional string: undefined and the empty string are falsy.\<close>

definition or_default :: "string option \<Rightarrow> string \<Rightarrow> string" where
  "or_default x d = (case x of None \<Rightarrow> d | Some s \<Rightarrow> if s = [] then d else s)"

definition default_filename :: "env \<Rightarrow> string" where
  "default_filename e = ''chitro-recording-'' @ decimal (now e) @ ''.webm''"

text \<open>
  The chain of format checks: buffer, filename and content type of the upload, or
  \<open>None\<close> for the unknown format.
\<close>

definition upload_payload :: "env \<Rightarrow> upload_request \<Rightarrow> (string \<times> string \<times> string) option" where
  "upload_payload e req =
     (case req_body req of
        BufferBody b \<Rightarrow>
          Some (b, or_default (h_x_filename req) (default_filename e),
                or_default (h_content_type req) ''video/webm'')
      | other \<Rightarrow>
          (case req_file req of
             Some file \<Rightarrow>
               Some (f_buffer file,
                     or_default (Some (f_originalname file)) (default_filename e),
                     or_default (Some (f_mimetype file)) ''video/webm'')
           | None \<Rightarrow>
               (case other of
                  JsonBody (Some video) fname ctype \<Rightarrow>
                    Some (base64 e video, or_default fname (default_filename e),
                          or_default ctype ''video/webm'')
                | _ \<Rightarrow> None)))"

definition emit :: "env \<Rightarrow> string \<Rightarrow> event \<Rightarrow> unit io" where
  "emit e topic ev =
     bnd (attempt e (Emit topic)) (\<lambda>_. modify (\<lambda>w. w\<lparr>emitted := emitted w @ [ev]\<rparr>))"

definition UploadVideo_handler :: "env \<Rightarrow> upload_request \<Rightarrow> world \<Rightarrow> response \<times> world" where
  "UploadVideo_handler e req = api_catch (
     case upload_payload e req of
       None \<Rightarrow> ret \<lparr>status = 400, body = BError
         ''Invalid request body format. Expected FormData with video file, binary data, or JSON with video field.''\<rparr>
     | Some (videoBuffer, filename, contentType) \<Rightarrow>
         if length videoBuffer = 0
         then ret \<lparr>status = 400, body = BError ''Video file is empty''\<rparr>
         else
           bnd (uploadVideo e videoBuffer filename contentType) (\<lambda>(videoId, s3Key, publicUrl).
           bnd (createVideoMetadata e videoId filename contentType
                  (int (length videoBuffer)) s3Key (Some publicUrl)) (\<lambda>_.
           bnd (state_set e ''videos'' videoId (CVideo
                  \<lparr>vm_id = videoId, vm_filename = filename, vm_contentType = contentType,
                   vm_size = int (length videoBuffer), vm_createdAt = now e,
                   vm_s3Key = s3Key, vm_s3Url = publicUrl\<rparr>)) (\<lambda>_.
           bnd (state_clear e ''video-lists'') (\<lambda>_.
           bnd (emit e ''video-uploaded'' (VideoUploaded
                  \<lparr>ue_videoId = videoId, ue_s3Key = s3Key, ue_filename = filename,
                   ue_contentType = contentType, ue_size = int (length videoBuffer),
                   ue_publicUrl = publicUrl\<rparr>)) (\<lambda>_.
           ret \<lparr>status = 200, body = BUploaded videoId s3Key publicUrl
                  ''Video uploaded successfully''\<rparr>))))))"

subsection \<open>GetUploadUrl\<close>

text \<open>The validated body: \<open>size\<close> is optional and positive when present.\<close>

record upload_url_request =
  ur_filename :: string
  ur_contentType :: string
  ur_size :: "int option"

text \<open>\<open>size || 0\<close>\<close>

definition size_or_0 :: "int option \<Rightarrow> int" where
  "size_or_0 s = (case s of None \<Rightarrow> 0 | Some n \<Rightarrow> n)"

definition GetUploadUrl_handler :: "env \<Rightarrow> upload_url_request \<Rightarrow> world \<Rightarrow> response \<times> world" where
  "GetUploadUrl_handler e req = api_catch (
     bnd (generateUploadUrl e (ur_filename req) (ur_contentType req)) (\<lambda>(uploadUrl, videoId, s3Key).
     bnd (createVideoMetadata e videoId (ur_filename req) (ur_contentType req)
            (size_or_0 (ur_size req)) s3Key None) (\<lambda>_.
     bnd (state_set e ''upload-urls'' videoId (CUploadUrl
            \<lparr>uu_uploadUrl = uploadUrl, uu_videoId = videoId, uu_s3Key = s3Key,
             uu_filename = ur_filename req, uu_contentType = ur_contentType req,
             uu_createdAt = now e\<rparr>)) (\<lambda>_.
     bnd (emit e ''video-upload-initiated'' (VideoUploadInitiated videoId s3Key
            (ur_filename req) (ur_contentType req) (size_or_0 (ur_size req)))) (\<lambda>_.
     ret \<lparr>status = 200, body = BGrant uploadUrl videoId s3Key\<rparr>)))))"

subsection \<open>ProcessVideoUpload\<close>

text \<open>
  The existence check that opens the reconciler: the cached verification if there is
  one, else a HEAD request, whose positive answer alone is cached.
\<close>

definition verify_upload :: "env \<Rightarrow> upload_event \<Rightarrow> bool io" where
  "verify_upload e input =
     (let verificationCacheKey = ''s3-verify:'' @ ue_s3Key input in
      bnd (state_get e ''s3-verifications'' verificationCacheKey) (\<lambda>cachedVerification.
      case cachedVerification of
        Some v \<Rightarrow> ret (truthy v)
      | None \<Rightarrow>
          bnd (verifyObjectExists e (ue_s3Key input)) (\<lambda>exists.
          bnd (if exists
               then state_set e ''s3-verifications'' verificationCacheKey (CBool True)
               else ret ()) (\<lambda>_.
          ret exists))))"

text \<open>
  The body of the reconciler's \<open>try\<close> block.  The answer of the check only chooses
  between two log lines.
\<close>

definition ProcessVideoUpload_body :: "env \<Rightarrow> upload_event \<Rightarrow> unit io" where
  "ProcessVideoUpload_body e input =
     bnd (verify_upload e input) (\<lambda>exists.
     bnd (createVideoMetadata e (ue_videoId input) (ue_filename input)
            (ue_contentType input) (ue_size input) (ue_s3Key input)
            (Some (ue_publicUrl input))) (\<lambda>_.
     bnd (state_set e ''videos'' (ue_videoId input) (CVideo
            \<lparr>vm_id = ue_videoId input, vm_filename = ue_filename input,
             vm_contentType = ue_contentType input, vm_size = ue_size input,
             vm_createdAt = now e, vm_s3Key = ue_s3Key input,
             vm_s3Url = ue_publicUrl input\<rparr>)) (\<lambda>_.
     bnd (state_getGroup e ''video-lists'') (\<lambda>allCachedLists.
     state_clear e ''video-lists''))))"

text \<open>The handler: its \<open>catch\<close> logs and does not rethrow.\<close>

definition ProcessVideoUpload_handler :: "env \<Rightarrow> upload_event \<Rightarrow> unit io" where
  "ProcessVideoUpload_handler e input = try_ignore (ProcessVideoUpload_body e input)"

subsection \<open>ListVideos\<close>

datatype query_param = QAbsent | QString string | QArray "string list"

definition is_space :: "char \<Rightarrow> bool" where
  "is_space c = (let n = (of_char c :: nat) in n = 32 \<or> (9 \<le> n \<and> n \<le> 13))"

definition is_digit :: "char \<Rightarrow> bool" where
  "is_digit c = (let n = (of_char c :: nat) in 48 \<le> n \<and> n \<le> 57)"

definition digits_value :: "string \<Rightarrow> nat" where
  "digits_value ds = foldl (\<lambda>a c. 10 * a + (of_char c - 48)) 0 ds"

text \<open>\<open>parseInt(s, 10)\<close>; \<open>None\<close> is \<open>NaN\<close>.\<close>

definition parseInt10 :: "string \<Rightarrow> int option" where
  "parseInt10 s =
     (case dropWhile is_space s of
        [] \<Rightarrow> None
      | c # r \<Rightarrow>
          (let neg = (c = CHR ''-'');
               u = (if c = CHR ''-'' \<or> c = CHR ''+'' then r else c # r);
               ds = takeWhile is_digit u
           in if ds = [] then None
              else Some (if neg then - int (digits_value ds) else int (digits_value ds))))"

definition limit_of :: "query_param \<Rightarrow> int option" where
  "limit_of limitParam =
     (case limitParam of
        QAbsent \<Rightarrow> Some 50
      | QString s \<Rightarrow> if s = [] then Some 50 else parseInt10 s
      | QArray xs \<Rightarrow> (case xs of [] \<Rightarrow> None | x # _ \<Rightarrow> parseInt10 x))"

definition render_number :: "int option \<Rightarrow> string" where
  "render_number n =
     (case n of
        None \<Rightarrow> ''NaN''
      | Some i \<Rightarrow> if i < 0 then ''-'' @ decimal (nat (- i)) else decimal (nat i))"

text \<open>The cache-miss branch: read the table, cache the result, answer it.\<close>

definition list_from_db :: "env \<Rightarrow> int option \<Rightarrow> string \<Rightarrow> response io" where
  "list_from_db e limit cacheKey =
     bnd (listVideos e limit) (\<lambda>videos.
     let result = CList videos (length videos) in
     bnd (state_set e ''video-lists'' cacheKey result) (\<lambda>_.
     ret \<lparr>status = 200, body = BValue result\<rparr>))"

definition ListVideos_handler :: "env \<Rightarrow> query_param \<Rightarrow> world \<Rightarrow> response \<times> world" where
  "ListVideos_handler e limitParam = api_catch (
     let limit = limit_of limitParam; cacheKey = ''list:'' @ render_number limit in
     bnd (state_get e ''video-lists'' cacheKey) (\<lambda>cachedResult.
     case cachedResult of
       None \<Rightarrow> list_from_db e limit cacheKey
     | Some v \<Rightarrow>
         if truthy v then ret \<lparr>status = 200, body = BValue v\<rparr>
         else list_from_db e limit cacheKey))"

subsection \<open>DeleteVideo\<close>

definition DeleteVideo_handler :: "env \<Rightarrow> string \<Rightarrow> world \<Rightarrow> response \<times> world" where
  "DeleteVideo_handler e videoId = api_catch (
     bnd (getVideoMetadata e videoId) (\<lambda>video.
     case video of
       None \<Rightarrow> ret \<lparr>status = 404, body = BError ''Video not found''\<rparr>
     | Some v \<Rightarrow>
         bnd (deleteVideo e videoId) (\<lambda>deleted.
         if \<not> deleted
         then ret \<lparr>status = 404, body = BError ''Video not found''\<rparr>
         else
           bnd (state_delete e ''videos'' videoId) (\<lambda>_.
           bnd (state_clear e ''video-lists'') (\<lambda>_.
           bnd (emit e ''video-deleted'' (VideoDeleted videoId (vm_s3Key v) (vm_filename v))) (\<lambda>_.
           ret \<lparr>status = 200, body = BDeleted ''Video deleted successfully'' videoId\<rparr>))))))"

subsection \<open>CacheCleanupJob\<close>

definition CacheCleanupJob_handler :: "env \<Rightarrow> unit io" where
  "CacheCleanupJob_handler e = try_ignore (
     bnd (state_getGroup e ''videos'') (\<lambda>cachedVideos.
     bnd (state_getGroup e ''video-lists'') (\<lambda>cachedLists.
     state_getGroup e ''upload-urls'')))"

section \<open>Runs of the system\<close>

text \<open>
  The states the system can be in: it starts with an empty state store, every step may
  run with any input and any outcome of its external calls, the table, the bucket and
  the process may change from outside (a client's transfer to the bucket, a restart, the
  Express upload route of \<open>motia.config.ts\<close>, which writes the bucket and the table
  and has no access to the state store), and the state store may drop entries (its
  time-to-live policy).
\<close>

inductive reachable :: "world \<Rightarrow> bool" where
  start: "cache w = [] \<Longrightarrow> reachable w"
| get_video: "reachable w \<Longrightarrow> reachable (snd (GetVideo_handler e videoId w))"
| upload_video: "reachable w \<Longrightarrow> reachable (snd (UploadVideo_handler e req w))"
| get_upload_url: "reachable w \<Longrightarrow> reachable (snd (GetUploadUrl_handler e ureq w))"
| process_upload: "reachable w \<Longrightarrow> reachable (snd (ProcessVideoUpload_handler e input w))"
| list_videos: "reachable w \<Longrightarrow> reachable (snd (ListVideos_handler e limitParam w))"
| delete_video: "reachable w \<Longrightarrow> reachable (snd (DeleteVideo_handler e videoId w))"
| cleanup: "reachable w \<Longrightarrow> reachable (snd (CacheCleanupJob_handler e w))"
| outside: "reachable w \<Longrightarrow> cache w' = cache w \<Longrightarrow> reachable w'"
| expiry: "reachable w \<Longrightarrow> reachable (w\<lparr>cache := filter keep (cache w)\<rparr>)"

text \<open>The values stored in one group, as \<open>state.getGroup\<close> reads them.\<close>

definition group_values :: "string \<Rightarrow> ((string \<times> string) \<times> cache_value) list \<Rightarrow> cache_value list" where
  "group_values g c = map snd (filter (\<lambda>p. fst (fst p) = g) c)"

text \<open>The existence-check group holds nothing but \<open>true\<close>.\<close>

definition only_true :: "((string \<times> string) \<times> cache_value) list \<Rightarrow> bool" where
  "only_true c = list_all (\<lambda>v. v = CBool True) (group_values ''s3-verifications'' c)"

text \<open>One call of the persistence upsert, with the environment it runs in.\<close>

record upsert_call =
  uc_env :: env
  uc_videoId :: string
  uc_filename :: string
  uc_contentType :: string
  uc_size :: int
  uc_s3Key :: string
  uc_publicUrl :: "string option"

definition run_upsert :: "upsert_call \<Rightarrow> world \<Rightarrow> world" where
  "run_upsert c w = snd (createVideoMetadata (uc_env c) (uc_videoId c) (uc_filename c)
     (uc_contentType c) (uc_size c) (uc_s3Key c) (uc_publicUrl c) w)"

text \<open>A sequence of upserts, one after the other, whether they succeed or throw.\<close>

fun run_upserts :: "upsert_call list \<Rightarrow> world \<Rightarrow> world" where
  "run_upserts [] w = w"
| "run_upserts (c # cs) w = run_upserts cs (run_upsert c w)"

text \<open>A step keeps a property of one component of the world (the state store, the table).\<close>

definition keeps :: "(world \<Rightarrow> 'b) \<Rightarrow> ('b \<Rightarrow> bool) \<Rightarrow> 'a io \<Rightarrow> bool" where
  "keeps f Q m = (\<forall>w. Q (f w) \<longrightarrow> Q (f (snd (m w))))"

text \<open>
  The table has a row with the id that agrees with \<open>r\<close> on every column but
  \<open>public_url\<close>.
\<close>

definition row_kept :: "string \<Rightarrow> video_row \<Rightarrow> video_row list \<Rightarrow> bool" where
  "row_kept vid r rows =
     (case find_row vid rows of
        None \<Rightarrow> False
      | Some r' \<Rightarrow> r'\<lparr>row_public_url := row_public_url r\<rparr> = r)"

subsection \<open>Concrete runs\<close>

text \<open>
  The empty world, and a run at time 1000 in which no call fails and \<open>randomUUID\<close>
  answers \<open>7b1e\<close>.  The runs below upload raw buffers, so the base64 decoder plays
  no part in them.
\<close>

definition world0 :: world where
  "world0 = \<lparr>initialized = False, videos = [], blobs = [], cache = [], emitted = [],
             trace = []\<rparr>"

definition env0 :: env where
  "env0 = \<lparr>faults = (\<lambda>c. False), now = 1000, uuid = ''7b1e'', usePresigned = False,
           publicUrlBase = ''https://chitro.sevalla.storage'',
           signedGetUrl = (\<lambda>k. ''https://s3.sevalla.storage/get/'' @ k),
           signedPutUrl = (\<lambda>k. ''https://s3.sevalla.storage/put/'' @ k),
           base64 = (\<lambda>s. s)\<rparr>"

text \<open>A ten-byte upload named \<open>a.webm\<close>, an empty one, and the completion signal of the first.\<close>

definition req_ok :: upload_request where
  "req_ok = \<lparr>req_body = BufferBody ''0123456789'', req_file = None,
             h_x_filename = Some ''a.webm'', h_content_type = Some ''video/webm''\<rparr>"

definition req_empty :: upload_request where
  "req_empty = \<lparr>req_body = BufferBody [], req_file = None,
                h_x_filename = Some ''a.webm'', h_content_type = Some ''video/webm''\<rparr>"

definition ev0 :: upload_event where
  "ev0 = \<lparr>ue_videoId = ''7b1e'', ue_s3Key = ''videos/7b1e.webm'', ue_filename = ''a.webm'',
          ue_contentType = ''video/webm'', ue_size = 10,
          ue_publicUrl = ''https://chitro.sevalla.storage/videos/7b1e.webm''\<rparr>"

text \<open>A run in which the database rejects the upsert.\<close>

definition env_db_down :: env where
  "env_db_down = env0\<lparr>faults := (\<lambda>c. c = DbUpsert ''7b1e'')\<rparr>"

text \<open>An upsert of the video \<open>7b1e\<close> at a given time, with a given size and URL.\<close>

definition call_at :: "nat \<Rightarrow> int \<Rightarrow> string \<Rightarrow> upsert_call" where
  "call_at t sz url = \<lparr>uc_env = env0\<lparr>now := t\<rparr>, uc_videoId = ''7b1e'', uc_filename = ''a.webm'',
     uc_contentType = ''video/webm'', uc_size = sz, uc_s3Key = ''videos/7b1e.webm'',
     uc_publicUrl = Some url\<rparr>"

text \<open>A request for an upload grant that names no size.\<close>

definition ureq0 :: upload_url_request where
  "ureq0 = \<lparr>ur_filename = ''a.webm'', ur_contentType = ''video/webm'', ur_size = None\<rparr>"

text \<open>An upsert of the same id with every other field changed.\<close>

definition other_call :: upsert_call where
  "other_call = \<lparr>uc_env = env0\<lparr>now := 2\<rparr>, uc_videoId = ''7b1e'', uc_filename = ''b.mp4'',
     uc_contentType = ''video/mp4'', uc_size = 99, uc_s3Key = ''videos/other.mp4'',
     uc_publicUrl = Some ''https://elsewhere.example/b.mp4''\<rparr>"

text \<open>The table after the video \<open>7b1e\<close> was inserted at time 1.\<close>

definition w_after_first :: world where
  "w_after_first = run_upserts [call_at 1 10 ''https://chitro.sevalla.storage/a''] world0"

text \<open>A run at time 2 whose signer hands out other URLs than that of \<open>env0\<close>.\<close>

definition env_later :: env where
  "env_later = env0\<lparr>now := 2, signedGetUrl := (\<lambda>k. ''https://s3.sevalla.storage/later/'' @ k)\<rparr>"

text \<open>
  Two runs with \<open>S3_USE_PRESIGNED=true\<close>: the signer's URL of the second is not that
  of the first.
\<close>

definition env_sign1 :: env where
  "env_sign1 = env0\<lparr>usePresigned := True\<rparr>"

definition env_sign2 :: env where
  "env_sign2 = env_later\<lparr>usePresigned := True\<rparr>"

text \<open>Runs in which one call of the state store throws.\<close>

definition env_set_fails :: env where
  "env_set_fails = env0\<lparr>faults := (\<lambda>c. c = StateSet ''videos'' ''7b1e'')\<rparr>"

definition env_evict_fails :: env where
  "env_evict_fails = env0\<lparr>faults := (\<lambda>c. c = StateDelete ''videos'' ''7b1e'')\<rparr>"

definition env_get_fails :: env where
  "env_get_fails = env0\<lparr>faults := (\<lambda>c. c = StateGet ''video-lists'' ''list:50'')\<rparr>"

text \<open>
  The video \<open>7b1e\<close> was uploaded, then deleted by a run whose cache eviction threw: the
  row is gone, the snapshot is still cached.
\<close>

definition w_hit :: world where
  "w_hit = snd (DeleteVideo_handler env_evict_fails ''7b1e''
             (snd (UploadVideo_handler env0 req_ok world0)))"

section \<open>The upsert on the table\<close>

lemmas io_defs = ret_def throw_def bnd_def reads_def modify_def attempt_def try_ignore_def

lemmas state_defs = state_get_def state_set_def state_delete_def state_clear_def
  state_getGroup_def

lemma find_row_map_url:
  "find_row v (map (\<lambda>x. if row_id x = k then x\<lparr>row_public_url := u\<rparr> else x) rows) =
   map_option (\<lambda>x. if row_id x = k then x\<lparr>row_public_url := u\<rparr> else x) (find_row v rows)"
  unfolding find_row_def by (induction rows) simp_all

lemma find_row_snoc:
  "find_row v (rows @ [n]) =
   (case find_row v rows of None \<Rightarrow> if row_id n = v then Some n else None | Some x \<Rightarrow> Some x)"
  unfolding find_row_def by (induction rows) simp_all

lemma find_row_None_iff: "find_row v rows = None \<longleftrightarrow> \<not> list_ex (\<lambda>x. row_id x = v) rows"
  unfolding find_row_def by (induction rows) simp_all

lemma find_row_Some_id: "find_row v rows = Some r \<Longrightarrow> row_id r = v"
  unfolding find_row_def by (induction rows) (simp_all split: if_splits)

lemma find_row_upsert_same:
  assumes "find_row (row_id n) rows = Some r"
  shows "find_row (row_id n) (upsert_row n rows) = Some (r\<lparr>row_public_url := row_public_url n\<rparr>)"
proof -
  from assms have "list_ex (\<lambda>x. row_id x = row_id n) rows"
    using find_row_None_iff[of "row_id n" rows] by simp
  moreover have "row_id r = row_id n" using assms by (rule find_row_Some_id)
  ultimately show ?thesis using assms by (simp add: upsert_row_def find_row_map_url)
qed

lemma find_row_upsert_new:
  assumes "find_row (row_id n) rows = None"
  shows "find_row (row_id n) (upsert_row n rows) = Some n"
proof -
  from assms have "\<not> list_ex (\<lambda>x. row_id x = row_id n) rows"
    by (simp add: find_row_None_iff)
  then show ?thesis using assms by (simp add: upsert_row_def find_row_snoc)
qed

lemma find_row_upsert_other:
  assumes "v \<noteq> row_id n"
  shows "find_row v (upsert_row n rows) = find_row v rows"
proof (cases "list_ex (\<lambda>x. row_id x = row_id n) rows")
  case True
  have "map_option (\<lambda>x. if row_id x = row_id n then x\<lparr>row_public_url := row_public_url n\<rparr> else x)
          (find_row v rows) = find_row v rows"
  proof (cases "find_row v rows")
    case None then show ?thesis by simp
  next
    case (Some a)
    then have "row_id a = v" by (rule find_row_Some_id)
    with Some assms show ?thesis by simp
  qed
  with True show ?thesis by (simp add: upsert_row_def find_row_map_url)
next
  case False
  then show ?thesis using assms by (simp add: upsert_row_def find_row_snoc split: option.splits)
qed

lemma list_ex_row_id: "list_ex (\<lambda>x. row_id x = k) xs = (k \<in> set (map row_id xs))"
  by (induction xs) auto

lemma map_row_id_upsert:
  "map row_id (upsert_row n rows) =
     (if row_id n \<in> set (map row_id rows) then map row_id rows else map row_id rows @ [row_id n])"
proof -
  have "map (row_id \<circ> (\<lambda>x. if row_id x = k then x\<lparr>row_public_url := u\<rparr> else x)) rows = map row_id rows" for k u
    by (rule map_cong) simp_all
  then show ?thesis by (simp add: upsert_row_def list_ex_row_id)
qed

lemma distinct_upsert:
  "distinct (map row_id rows) \<Longrightarrow> distinct (map row_id (upsert_row n rows))"
  by (simp add: map_row_id_upsert)

lemma list_ex_upsert: "list_ex (\<lambda>x. row_id x = row_id n) (upsert_row n rows)"
  unfolding list_ex_row_id map_row_id_upsert by simp

lemma upsert_row_twice:
  assumes "row_id n' = row_id n" and "row_public_url n' = row_public_url n"
  shows "upsert_row n' (upsert_row n rows) = upsert_row n rows"
proof -
  have "map (\<lambda>x. if row_id x = row_id n' then x\<lparr>row_public_url := row_public_url n'\<rparr> else x) (upsert_row n rows)
        = upsert_row n rows"
    unfolding assms by (rule map_idI) (auto simp: upsert_row_def list_ex_iff split: if_splits)
  moreover have "list_ex (\<lambda>x. row_id x = row_id n') (upsert_row n rows)"
    unfolding assms by (rule list_ex_upsert)
  ultimately show ?thesis by (simp only: upsert_row_def[of n' "upsert_row n rows"] if_True)
qed

lemma count_ids:
  "distinct (map row_id rows) \<Longrightarrow> v \<in> set (map row_id rows) \<Longrightarrow>
   length (filter (\<lambda>x. row_id x = v) rows) = 1"
proof (induction rows)
  case Nil
  then show ?case by simp
next
  case (Cons a rows)
  show ?case
  proof (cases "row_id a = v")
    case True
    with Cons.prems have "filter (\<lambda>x. row_id x = v) rows = []"
      by (auto simp: filter_empty_conv image_iff)
    with True show ?thesis by simp
  next
    case False
    with Cons show ?thesis by simp
  qed
qed

lemma count_upsert:
  assumes "distinct (map row_id rows)"
  shows "length (filter (\<lambda>x. row_id x = row_id n) (upsert_row n rows)) = 1"
proof -
  have "row_id n \<in> set (map row_id (upsert_row n rows))"
    using list_ex_upsert[of n rows] by (simp only: list_ex_row_id)
  with distinct_upsert[OF assms, of n] show ?thesis by (rule count_ids)
qed


lemma createVideoMetadata_result:
  assumes "createVideoMetadata e vid fn ct sz key purl w = (res, w')"
  shows "cache w' = cache w \<and> blobs w' = blobs w \<and> emitted w' = emitted w \<and>
    (case res of
       Inl x \<Rightarrow> videos w' = videos w
     | Inr m \<Rightarrow>
         m = \<lparr>vm_id = vid, vm_filename = fn, vm_contentType = ct, vm_size = sz,
              vm_createdAt = now e, vm_s3Key = key, vm_s3Url = vm_s3Url m\<rparr> \<and>
         videos w' = upsert_row
           \<lparr>row_id = vid, row_filename = fn, row_content_type = ct, row_size = sz,
            row_created_at = now e, row_s3_key = key, row_public_url = vm_s3Url m\<rparr> (videos w))"
  using assms
  by (auto simp: createVideoMetadata_def ensureVideoTable_def generatePublicUrl_def io_defs
           split: prod.splits sum.splits option.splits if_splits)

lemma createVideoMetadata_given_url:
  assumes "createVideoMetadata e vid fn ct sz key (Some u) w = (Inr m, w')" and "u \<noteq> []"
  shows "vm_s3Url m = u"
  using assms
  by (auto simp: createVideoMetadata_def ensureVideoTable_def io_defs
           split: prod.splits sum.splits if_splits)

section \<open>Frame rules\<close>

lemma keeps_same: "(\<And>w. f (snd (m w)) = f w) \<Longrightarrow> keeps f Q m"
  by (simp add: keeps_def)

lemma keeps_bnd:
  assumes "keeps f Q m" and "\<And>a. keeps f Q (k a)"
  shows "keeps f Q (bnd m k)"
  using assms by (auto simp: keeps_def bnd_def split: prod.splits sum.splits)

lemma keeps_ret: "keeps f Q (ret a)"
  by (simp add: keeps_def ret_def)

lemma keeps_try_ignore: "keeps f Q m \<Longrightarrow> keeps f Q (try_ignore m)"
  by (auto simp: keeps_def try_ignore_def split: prod.splits sum.splits)

lemma keeps_api_catch: "keeps f Q m \<Longrightarrow> Q (f w) \<Longrightarrow> Q (f (snd (api_catch m w)))"
  by (auto simp: keeps_def api_catch_def split: prod.splits sum.splits)

lemma keeps_if: "keeps f Q a \<Longrightarrow> keeps f Q b \<Longrightarrow> keeps f Q (if c then a else b)"
  by simp

lemma keeps_option:
  "keeps f Q a \<Longrightarrow> (\<And>y. keeps f Q (b y)) \<Longrightarrow>
   keeps f Q (case x of None \<Rightarrow> a | Some y \<Rightarrow> b y)"
  by (cases x) simp_all

lemma keeps_prod:
  "(\<And>a b. keeps f Q (k a b)) \<Longrightarrow> keeps f Q (case x of (a, b) \<Rightarrow> k a b)"
  by (cases x) simp

lemma keeps_Let: "(\<And>v. keeps f Q (k v)) \<Longrightarrow> keeps f Q (Let x k)"
  by simp

lemma keeps_point:
  "Q (f (snd (m w))) \<Longrightarrow> (\<And>a. keeps f Q (k a)) \<Longrightarrow> Q (f (snd (bnd m k w)))"
  by (auto simp: keeps_def bnd_def split: prod.splits sum.splits)

lemmas keeps_struct = keeps_bnd keeps_ret keeps_try_ignore keeps_if keeps_option keeps_prod
  keeps_Let

section \<open>What each operation does to the state store\<close>

lemma cache_attempt: "cache (snd (attempt e c w)) = cache w"
  by (simp add: attempt_def)

lemma cache_ensureVideoTable: "cache (snd (ensureVideoTable e w)) = cache w"
  by (simp add: ensureVideoTable_def io_defs split: prod.splits sum.splits)

lemma cache_createVideoMetadata:
  "cache (snd (createVideoMetadata e vid fn ct sz key purl w)) = cache w"
  using createVideoMetadata_result[of e vid fn ct sz key purl w]
  by (cases "createVideoMetadata e vid fn ct sz key purl w") simp

lemma cache_getVideoMetadata: "cache (snd (getVideoMetadata e vid w)) = cache w"
  by (simp add: getVideoMetadata_def ensureVideoTable_def io_defs split: prod.splits sum.splits)

lemma cache_listVideos: "cache (snd (listVideos e limit w)) = cache w"
  by (simp add: listVideos_def ensureVideoTable_def io_defs
           split: prod.splits sum.splits option.splits)

lemma cache_deleteVideo: "cache (snd (deleteVideo e vid w)) = cache w"
  by (simp add: deleteVideo_def ensureVideoTable_def io_defs split: prod.splits sum.splits)

lemma cache_uploadVideo: "cache (snd (uploadVideo e buf fn ct w)) = cache w"
  by (simp add: uploadVideo_def io_defs Let_def split: prod.splits sum.splits)

lemma cache_generateUploadUrl: "cache (snd (generateUploadUrl e fn ct w)) = cache w"
  by (simp add: generateUploadUrl_def io_defs Let_def split: prod.splits sum.splits)

lemma cache_verifyObjectExists: "cache (snd (verifyObjectExists e key w)) = cache w"
  by (simp add: verifyObjectExists_def io_defs split: prod.splits sum.splits)

lemma cache_emit: "cache (snd (emit e topic ev w)) = cache w"
  by (simp add: emit_def io_defs split: prod.splits sum.splits)

lemma cache_state_get: "cache (snd (state_get e g k w)) = cache w"
  by (simp add: state_get_def io_defs split: prod.splits sum.splits)

lemma cache_state_getGroup: "cache (snd (state_getGroup e g w)) = cache w"
  by (simp add: state_getGroup_def io_defs split: prod.splits sum.splits)

lemma keeps_cache_state_set:
  "(\<And>c. Q c \<Longrightarrow> Q (AList.update (g, k) v c)) \<Longrightarrow> keeps cache Q (state_set e g k v)"
  by (simp add: keeps_def state_set_def io_defs split: prod.splits sum.splits)

lemma keeps_cache_state_delete:
  "(\<And>c. Q c \<Longrightarrow> Q (AList.delete (g, k) c)) \<Longrightarrow> keeps cache Q (state_delete e g k)"
  by (simp add: keeps_def state_delete_def io_defs split: prod.splits sum.splits)

lemma keeps_cache_state_clear:
  "(\<And>c. Q c \<Longrightarrow> Q (filter (\<lambda>p. fst (fst p) \<noteq> g) c)) \<Longrightarrow> keeps cache Q (state_clear e g)"
  by (simp add: keeps_def state_clear_def io_defs split: prod.splits sum.splits)

lemmas keeps_cache_frame =
  keeps_same[of cache "attempt e c" for e c, OF cache_attempt]
  keeps_same[of cache "ensureVideoTable e" for e, OF cache_ensureVideoTable]
  keeps_same[of cache "createVideoMetadata e vid fn ct sz key purl" for e vid fn ct sz key purl,
    OF cache_createVideoMetadata]
  keeps_same[of cache "getVideoMetadata e vid" for e vid, OF cache_getVideoMetadata]
  keeps_same[of cache "listVideos e limit" for e limit, OF cache_listVideos]
  keeps_same[of cache "deleteVideo e vid" for e vid, OF cache_deleteVideo]
  keeps_same[of cache "uploadVideo e buf fn ct" for e buf fn ct, OF cache_uploadVideo]
  keeps_same[of cache "generateUploadUrl e fn ct" for e fn ct, OF cache_generateUploadUrl]
  keeps_same[of cache "verifyObjectExists e key" for e key, OF cache_verifyObjectExists]
  keeps_same[of cache "emit e topic ev" for e topic ev, OF cache_emit]
  keeps_same[of cache "state_get e g k" for e g k, OF cache_state_get]
  keeps_same[of cache "state_getGroup e g" for e g, OF cache_state_getGroup]

lemmas keeps_cache_writes = keeps_cache_state_set keeps_cache_state_delete
  keeps_cache_state_clear

section \<open>The existence-check group\<close>

lemma only_true_iff:
  "only_true c \<longleftrightarrow> (\<forall>p\<in>set c. fst (fst p) = ''s3-verifications'' \<longrightarrow> snd p = CBool True)"
  by (auto simp: only_true_def group_values_def list_all_iff)

lemma set_update_subset: "set (AList.update k v c) \<subseteq> insert (k, v) (set c)"
  by (induction c) auto

lemma only_true_update_other:
  "g \<noteq> ''s3-verifications'' \<Longrightarrow> only_true c \<Longrightarrow> only_true (AList.update (g, k) v c)"
  unfolding only_true_iff using set_update_subset[of "(g, k)" v c] by auto

lemma only_true_update_True:
  "only_true c \<Longrightarrow> only_true (AList.update (g, k) (CBool True) c)"
  unfolding only_true_iff using set_update_subset[of "(g, k)" "CBool True" c] by auto

lemma only_true_delete: "only_true c \<Longrightarrow> only_true (AList.delete gk c)"
  unfolding only_true_iff by (auto simp: AList.delete_eq)

lemma only_true_filter: "only_true c \<Longrightarrow> only_true (filter keep c)"
  unfolding only_true_iff by auto

lemmas only_true_rules = only_true_update_other only_true_update_True only_true_delete
  only_true_filter

lemma only_true_GetVideo:
  "only_true (cache w) \<Longrightarrow> only_true (cache (snd (GetVideo_handler e videoId w)))"
  unfolding GetVideo_handler_def
  by (rule keeps_api_catch) (intro keeps_struct keeps_cache_frame)

lemma only_true_UploadVideo:
  "only_true (cache w) \<Longrightarrow> only_true (cache (snd (UploadVideo_handler e req w)))"
  unfolding UploadVideo_handler_def
  by (rule keeps_api_catch)
     (intro keeps_struct keeps_cache_frame keeps_cache_writes only_true_rules; simp)

lemma only_true_GetUploadUrl:
  "only_true (cache w) \<Longrightarrow> only_true (cache (snd (GetUploadUrl_handler e req w)))"
  unfolding GetUploadUrl_handler_def
  by (rule keeps_api_catch)
     (intro keeps_struct keeps_cache_frame keeps_cache_writes only_true_rules; simp)

lemma keeps_only_true_verify_upload: "keeps cache only_true (verify_upload e input)"
  unfolding verify_upload_def
  by (intro keeps_struct keeps_cache_frame keeps_cache_writes only_true_rules; simp)

lemma keeps_only_true_ProcessVideoUpload:
  "keeps cache only_true (ProcessVideoUpload_handler e input)"
  unfolding ProcessVideoUpload_handler_def ProcessVideoUpload_body_def
  by (intro keeps_struct keeps_cache_frame keeps_cache_writes keeps_only_true_verify_upload
        only_true_rules; simp)

lemma only_true_ListVideos:
  "only_true (cache w) \<Longrightarrow> only_true (cache (snd (ListVideos_handler e q w)))"
  unfolding ListVideos_handler_def list_from_db_def
  by (rule keeps_api_catch)
     (intro keeps_struct keeps_cache_frame keeps_cache_writes only_true_rules; simp)

lemma only_true_DeleteVideo:
  "only_true (cache w) \<Longrightarrow> only_true (cache (snd (DeleteVideo_handler e videoId w)))"
  unfolding DeleteVideo_handler_def
  by (rule keeps_api_catch)
     (intro keeps_struct keeps_cache_frame keeps_cache_writes only_true_rules; simp)

lemma keeps_only_true_CacheCleanupJob: "keeps cache only_true (CacheCleanupJob_handler e)"
  unfolding CacheCleanupJob_handler_def
  by (intro keeps_struct keeps_cache_frame)

lemma reachable_only_true: "reachable w \<Longrightarrow> only_true (cache w)"
proof (induction rule: reachable.induct)
  case (start w)
  then show ?case by (simp add: only_true_def group_values_def)
next
  case (process_upload w e input)
  then show ?case
    using keeps_only_true_ProcessVideoUpload[of e input] by (simp add: keeps_def)
next
  case (cleanup w e)
  then show ?case
    using keeps_only_true_CacheCleanupJob[of e] by (simp add: keeps_def)
qed (simp_all add: only_true_GetVideo only_true_UploadVideo only_true_GetUploadUrl
       only_true_ListVideos only_true_DeleteVideo only_true_filter)

lemma snd_try_ignore: "snd (try_ignore m w) = snd (m w)"
  by (simp add: try_ignore_def split: prod.splits sum.splits)

lemma verify_upload_negative:
  "faults e (S3Head (ue_s3Key input)) \<or> map_of (blobs w) (ue_s3Key input) = None \<Longrightarrow>
   cache (snd (verify_upload e input w)) = cache w"
  by (auto simp: verify_upload_def state_get_def verifyObjectExists_def io_defs Let_def
           split: prod.splits sum.splits option.splits if_splits)

lemma group_values_update_other:
  "g \<noteq> G \<Longrightarrow> group_values G (AList.update (g, k) v c) = group_values G c"
  by (induction c) (auto simp: group_values_def)

lemma group_values_clear_other:
  "g \<noteq> G \<Longrightarrow> group_values G (filter (\<lambda>p. fst (fst p) \<noteq> g) c) = group_values G c"
  by (induction c) (auto simp: group_values_def)

lemma ProcessVideoUpload_negative_probe:
  assumes "faults e (S3Head (ue_s3Key input)) \<or> map_of (blobs w) (ue_s3Key input) = None"
  shows "group_values ''s3-verifications'' (cache (snd (ProcessVideoUpload_handler e input w)))
         = group_values ''s3-verifications'' (cache w)"
  unfolding ProcessVideoUpload_handler_def ProcessVideoUpload_body_def snd_try_ignore
  apply (rule keeps_point[where Q = "\<lambda>c. group_values ''s3-verifications'' c
            = group_values ''s3-verifications'' (cache w)"])
   apply (simp add: verify_upload_negative[OF assms])
  apply (intro keeps_struct keeps_cache_frame keeps_cache_writes)
   apply (simp_all add: group_values_update_other group_values_clear_other)
  done

text \<open>
  C5.  In every reachable state the existence-check group \<open>s3-verifications\<close> holds no
  value but \<open>true\<close>; and a run of the reconciler whose probe is negative (the HEAD
  request fails or the object is not in the bucket) leaves the group as it was.
\<close>

theorem existence_checks_only_true:
  "(reachable w \<longrightarrow> only_true (cache w)) \<and>
   (faults e (S3Head (ue_s3Key input)) \<or> map_of (blobs w') (ue_s3Key input) = None \<longrightarrow>
      group_values ''s3-verifications'' (cache (snd (ProcessVideoUpload_handler e input w')))
      = group_values ''s3-verifications'' (cache w'))"
  using reachable_only_true ProcessVideoUpload_negative_probe by blast

text \<open>
  After an upload and its reconciliation the group holds one \<open>true\<close>; a reconciliation
  with an empty bucket stores nothing.
\<close>

theorem existence_checks_only_true_witness:
  "reachable (snd (ProcessVideoUpload_handler env0 ev0
      (snd (UploadVideo_handler env0 req_ok world0)))) \<and>
   only_true (cache (snd (ProcessVideoUpload_handler env0 ev0
      (snd (UploadVideo_handler env0 req_ok world0))))) \<and>
   group_values ''s3-verifications'' (cache (snd (ProcessVideoUpload_handler env0 ev0
      (snd (UploadVideo_handler env0 req_ok world0))))) = [CBool True] \<and>
   map_of (blobs world0) (ue_s3Key ev0) = None \<and>
   group_values ''s3-verifications'' (cache (snd (ProcessVideoUpload_handler env0 ev0 world0)))
     = []"
proof -
  have r: "reachable (snd (ProcessVideoUpload_handler env0 ev0
      (snd (UploadVideo_handler env0 req_ok world0))))"
    by (intro reachable.process_upload reachable.upload_video reachable.start)
       (simp add: world0_def)
  have v: "group_values ''s3-verifications'' (cache (snd (ProcessVideoUpload_handler env0 ev0
      (snd (UploadVideo_handler env0 req_ok world0))))) = [CBool True]"
    by code_simp
  have b: "map_of (blobs world0) (ue_s3Key ev0) = None"
    by (simp add: world0_def)
  have c: "group_values ''s3-verifications'' (cache world0) = []"
    by (simp add: world0_def group_values_def)
  from existence_checks_only_true[of "snd (ProcessVideoUpload_handler env0 ev0
      (snd (UploadVideo_handler env0 req_ok world0)))" env0 ev0 world0] r v b c
  show ?thesis by simp
qed

section \<open>The reconciler never raises\<close>

text \<open>
  C8.  For every completion signal, every world and every outcome of the external calls,
  the handler of ProcessVideoUpload returns normally; what its body did before a failure
  stays done.
\<close>

theorem ProcessVideoUpload_never_raises:
  "fst (ProcessVideoUpload_handler e input w) = Inr () \<and>
   snd (ProcessVideoUpload_handler e input w) = snd (ProcessVideoUpload_body e input w)"
  by (simp add: ProcessVideoUpload_handler_def try_ignore_def split: prod.splits sum.splits)

text \<open>When the database rejects the upsert, the body throws and the handler returns.\<close>

theorem ProcessVideoUpload_never_raises_witness:
  "fst (ProcessVideoUpload_body env_db_down ev0 world0) = Inl (Failed (DbUpsert ''7b1e'')) \<and>
   fst (ProcessVideoUpload_handler env_db_down ev0 world0) = Inr ()"
proof -
  have "fst (ProcessVideoUpload_body env_db_down ev0 world0) = Inl (Failed (DbUpsert ''7b1e''))"
    by code_simp
  with ProcessVideoUpload_never_raises[of env_db_down ev0 world0] show ?thesis by simp
qed

section \<open>Direct upload of an empty payload\<close>

text \<open>
  C9.  A direct-upload request whose payload has no bytes is answered with status 400 and
  the world is left exactly as it was: no external call is attempted, so nothing is put
  in the bucket, the table or the state store, and no event is emitted.
\<close>

theorem UploadVideo_empty_payload:
  assumes "upload_payload e req = Some (videoBuffer, filename, contentType)"
    and "length videoBuffer = 0"
  shows "UploadVideo_handler e req w =
    (\<lparr>status = 400, body = BError ''Video file is empty''\<rparr>, w)"
  using assms by (simp add: UploadVideo_handler_def api_catch_def ret_def)

theorem UploadVideo_empty_payload_witness:
  "upload_payload env0 req_empty = Some ([], ''a.webm'', ''video/webm'') \<and>
   UploadVideo_handler env0 req_empty world0 =
     (\<lparr>status = 400, body = BError ''Video file is empty''\<rparr>, world0)"
proof -
  have p: "upload_payload env0 req_empty = Some ([], ''a.webm'', ''video/webm'')"
    by (simp add: upload_payload_def req_empty_def or_default_def)
  from UploadVideo_empty_payload[OF p, of world0] p show ?thesis by simp
qed

section \<open>The columns an upsert leaves alone\<close>

lemma row_kept_refl: "find_row vid rows = Some r \<Longrightarrow> row_kept vid r rows"
  by (simp add: row_kept_def)

lemma row_kept_upsert: "row_kept vid r rows \<Longrightarrow> row_kept vid r (upsert_row n rows)"
proof (cases "vid = row_id n")
  case True
  assume k: "row_kept vid r rows"
  then obtain r' where f: "find_row (row_id n) rows = Some r'"
      and e: "r'\<lparr>row_public_url := row_public_url r\<rparr> = r"
    using True by (auto simp: row_kept_def split: option.splits)
  from find_row_upsert_same[OF f] e True show ?thesis
    by (simp add: row_kept_def)
next
  case False
  assume "row_kept vid r rows"
  with find_row_upsert_other[OF False, of rows] show ?thesis
    by (simp add: row_kept_def)
qed

lemma keeps_row_kept_createVideoMetadata:
  "keeps videos (row_kept v r) (createVideoMetadata e vid fn ct sz key purl)"
  unfolding keeps_def
proof (intro allI impI)
  fix w :: world
  assume k: "row_kept v r (videos w)"
  obtain res w' where c: "createVideoMetadata e vid fn ct sz key purl w = (res, w')"
    by (cases "createVideoMetadata e vid fn ct sz key purl w") 
  from createVideoMetadata_result[OF c] k have "row_kept v r (videos w')"
    by (cases res) (auto intro: row_kept_upsert)
  with c show "row_kept v r (videos (snd (createVideoMetadata e vid fn ct sz key purl w)))"
    by simp
qed

lemma videos_attempt: "videos (snd (attempt e c w)) = videos w"
  by (simp add: attempt_def)

lemma videos_state_get: "videos (snd (state_get e g k w)) = videos w"
  by (simp add: state_get_def io_defs split: prod.splits sum.splits)

lemma videos_state_set: "videos (snd (state_set e g k v w)) = videos w"
  by (simp add: state_set_def io_defs split: prod.splits sum.splits)

lemma videos_state_clear: "videos (snd (state_clear e g w)) = videos w"
  by (simp add: state_clear_def io_defs split: prod.splits sum.splits)

lemma videos_state_getGroup: "videos (snd (state_getGroup e g w)) = videos w"
  by (simp add: state_getGroup_def io_defs split: prod.splits sum.splits)

lemma videos_verifyObjectExists: "videos (snd (verifyObjectExists e key w)) = videos w"
  by (simp add: verifyObjectExists_def io_defs split: prod.splits sum.splits)

lemmas keeps_videos_frame =
  keeps_same[of videos "attempt e c" for e c, OF videos_attempt]
  keeps_same[of videos "state_get e g k" for e g k, OF videos_state_get]
  keeps_same[of videos "state_set e g k v" for e g k v, OF videos_state_set]
  keeps_same[of videos "state_clear e g" for e g, OF videos_state_clear]
  keeps_same[of videos "state_getGroup e g" for e g, OF videos_state_getGroup]
  keeps_same[of videos "verifyObjectExists e key" for e key, OF videos_verifyObjectExists]

lemma keeps_row_kept_ProcessVideoUpload:
  "keeps videos (row_kept v r) (ProcessVideoUpload_handler e input)"
  unfolding ProcessVideoUpload_handler_def ProcessVideoUpload_body_def verify_upload_def
  by (intro keeps_struct keeps_videos_frame keeps_row_kept_createVideoMetadata)

lemma row_kept_columns:
  assumes "row_kept vid r rows"
  shows "\<exists>r'. find_row vid rows = Some r' \<and> row_id r' = row_id r \<and>
        row_filename r' = row_filename r \<and>
        row_content_type r' = row_content_type r \<and> row_size r' = row_size r \<and>
        row_created_at r' = row_created_at r \<and> row_s3_key r' = row_s3_key r"
proof -
  from assms obtain r' where f: "find_row vid rows = Some r'"
      and e: "r'\<lparr>row_public_url := row_public_url r\<rparr> = r"
    by (auto simp: row_kept_def split: option.splits)
  from arg_cong[OF e, of row_id] arg_cong[OF e, of row_filename]
    arg_cong[OF e, of row_content_type] arg_cong[OF e, of row_size]
    arg_cong[OF e, of row_created_at] arg_cong[OF e, of row_s3_key] f
  show ?thesis by simp
qed

text \<open>
  C4.  When \<open>createVideoMetadata\<close> meets a row with the same id, the table it leaves
  is the old one with \<open>public_url\<close> of that row replaced: \<open>filename\<close>,
  \<open>content_type\<close>, \<open>size\<close>, \<open>created_at\<close> and \<open>s3_key\<close> keep their stored
  values, and so does every other row.  A stored row also keeps these columns across a
  run of the reconciler, whatever the signal carries and whatever fails: a provisional
  row of size 0 keeps size 0.
\<close>

theorem upsert_conflict_changes_public_url_only:
  assumes "find_row vid (videos w) = Some r"
  shows "(createVideoMetadata e vid fn ct sz key purl w = (Inr m, w') \<longrightarrow>
            videos w' = map (\<lambda>x. if row_id x = vid
                                 then x\<lparr>row_public_url := vm_s3Url m\<rparr> else x) (videos w) \<and>
            find_row vid (videos w') = Some (r\<lparr>row_public_url := vm_s3Url m\<rparr>)) \<and>
         (\<exists>r'. find_row vid (videos (snd (ProcessVideoUpload_handler e' input w))) = Some r' \<and>
            row_filename r' = row_filename r \<and> row_content_type r' = row_content_type r \<and>
            row_size r' = row_size r \<and> row_created_at r' = row_created_at r \<and>
            row_s3_key r' = row_s3_key r)"
proof
  show "createVideoMetadata e vid fn ct sz key purl w = (Inr m, w') \<longrightarrow>
          videos w' = map (\<lambda>x. if row_id x = vid
                               then x\<lparr>row_public_url := vm_s3Url m\<rparr> else x) (videos w) \<and>
          find_row vid (videos w') = Some (r\<lparr>row_public_url := vm_s3Url m\<rparr>)"
  proof
    assume c: "createVideoMetadata e vid fn ct sz key purl w = (Inr m, w')"
    let ?n = "\<lparr>row_id = vid, row_filename = fn, row_content_type = ct, row_size = sz,
            row_created_at = now e, row_s3_key = key, row_public_url = vm_s3Url m\<rparr>"
    from createVideoMetadata_result[OF c]
    have v: "videos w' = upsert_row ?n (videos w)"
      by simp
    from assms have ex: "list_ex (\<lambda>x. row_id x = vid) (videos w)"
      using find_row_None_iff[of vid "videos w"] by simp
    from v ex have 1: "videos w' = map (\<lambda>x. if row_id x = vid
                               then x\<lparr>row_public_url := vm_s3Url m\<rparr> else x) (videos w)"
      by (simp add: upsert_row_def)
    from v find_row_upsert_same[of ?n "videos w" r] assms
    have 2: "find_row vid (videos w') = Some (r\<lparr>row_public_url := vm_s3Url m\<rparr>)" by simp
    from 1 2 show "videos w' = map (\<lambda>x. if row_id x = vid
                               then x\<lparr>row_public_url := vm_s3Url m\<rparr> else x) (videos w) \<and>
          find_row vid (videos w') = Some (r\<lparr>row_public_url := vm_s3Url m\<rparr>)" ..
  qed
next
  from assms have "row_kept vid r (videos w)" by (rule row_kept_refl)
  with keeps_row_kept_ProcessVideoUpload[of vid r e' input]
  have "row_kept vid r (videos (snd (ProcessVideoUpload_handler e' input w)))"
    by (simp add: keeps_def)
  from row_kept_columns[OF this]
  show "\<exists>r'. find_row vid (videos (snd (ProcessVideoUpload_handler e' input w))) = Some r' \<and>
            row_filename r' = row_filename r \<and> row_content_type r' = row_content_type r \<and>
            row_size r' = row_size r \<and> row_created_at r' = row_created_at r \<and>
            row_s3_key r' = row_s3_key r" by blast
qed

text \<open>
  The two-phase path reserves a row of size 0 at time 1; the reconciler, run with a
  signal of size 10, leaves size 0 and creation time 1.
\<close>

theorem upsert_conflict_changes_public_url_only_witness:
  "find_row ''7b1e'' (videos (snd (GetUploadUrl_handler (env0\<lparr>now := 1\<rparr>) ureq0 world0))) =
     Some \<lparr>row_id = ''7b1e'', row_filename = ''a.webm'', row_content_type = ''video/webm'',
           row_size = 0, row_created_at = 1, row_s3_key = ''videos/7b1e.webm'',
           row_public_url = ''https://chitro.sevalla.storage/videos/7b1e.webm''\<rparr> \<and>
   0 < ue_size ev0 \<and>
   (\<exists>r'. find_row ''7b1e'' (videos (snd (ProcessVideoUpload_handler env0 ev0
            (snd (GetUploadUrl_handler (env0\<lparr>now := 1\<rparr>) ureq0 world0))))) = Some r' \<and>
         row_size r' = 0 \<and> row_created_at r' = 1)"
proof -
  have f: "find_row ''7b1e'' (videos (snd (GetUploadUrl_handler (env0\<lparr>now := 1\<rparr>) ureq0 world0))) =
     Some \<lparr>row_id = ''7b1e'', row_filename = ''a.webm'', row_content_type = ''video/webm'',
           row_size = 0, row_created_at = 1, row_s3_key = ''videos/7b1e.webm'',
           row_public_url = ''https://chitro.sevalla.storage/videos/7b1e.webm''\<rparr>"
    by code_simp
  have s: "0 < ue_size ev0" by (simp add: ev0_def)
  from upsert_conflict_changes_public_url_only[where e' = env0 and input = ev0, OF f,
      THEN conjunct2] f s
  show ?thesis by auto
qed

section \<open>Sequences of upserts\<close>

lemma run_upserts_append: "run_upserts (cs1 @ cs2) w = run_upserts cs2 (run_upserts cs1 w)"
  by (induction cs1 arbitrary: w) simp_all

lemma row_kept_run_upsert: "row_kept vid r (videos w) \<Longrightarrow> row_kept vid r (videos (run_upsert c w))"
  using keeps_row_kept_createVideoMetadata[of vid r "uc_env c" "uc_videoId c" "uc_filename c"
          "uc_contentType c" "uc_size c" "uc_s3Key c" "uc_publicUrl c"]
  by (simp add: keeps_def run_upsert_def)

lemma row_kept_run_upserts:
  "row_kept vid r (videos w) \<Longrightarrow> row_kept vid r (videos (run_upserts cs w))"
  by (induction cs arbitrary: w) (simp_all add: row_kept_run_upsert)

text \<open>
  C7.  Once the table holds a row for an id, any further sequence of upserts, whatever
  ids and field values they carry and whether they succeed or throw, leaves a row for
  that id with the same \<open>id\<close> and the same \<open>s3_key\<close>.
\<close>

theorem id_and_s3_key_never_change:
  assumes "find_row vid (videos (run_upserts cs1 w)) = Some r"
  shows "\<exists>r'. find_row vid (videos (run_upserts (cs1 @ cs2) w)) = Some r' \<and>
              row_id r' = row_id r \<and> row_s3_key r' = row_s3_key r"
proof -
  from assms have "row_kept vid r (videos (run_upserts cs1 w))" by (rule row_kept_refl)
  then have "row_kept vid r (videos (run_upserts (cs1 @ cs2) w))"
    unfolding run_upserts_append by (rule row_kept_run_upserts)
  from row_kept_columns[OF this] show ?thesis by blast
qed

text \<open>
  The first upsert sets id \<open>7b1e\<close> and key \<open>videos/7b1e.webm\<close>; a second upsert of the
  id with another filename, size, key and URL leaves both.
\<close>


theorem id_and_s3_key_never_change_witness:
  "find_row ''7b1e'' (videos (run_upserts [call_at 1 10 ''https://chitro.sevalla.storage/a''] world0)) =
     Some \<lparr>row_id = ''7b1e'', row_filename = ''a.webm'', row_content_type = ''video/webm'',
           row_size = 10, row_created_at = 1, row_s3_key = ''videos/7b1e.webm'',
           row_public_url = ''https://chitro.sevalla.storage/a''\<rparr> \<and>
   (\<exists>r'. find_row ''7b1e'' (videos (run_upserts
            ([call_at 1 10 ''https://chitro.sevalla.storage/a''] @ [other_call]) world0)) = Some r' \<and>
         row_id r' = ''7b1e'' \<and> row_s3_key r' = ''videos/7b1e.webm'')"
proof -
  have f: "find_row ''7b1e'' (videos (run_upserts [call_at 1 10 ''https://chitro.sevalla.storage/a''] world0)) =
     Some \<lparr>row_id = ''7b1e'', row_filename = ''a.webm'', row_content_type = ''video/webm'',
           row_size = 10, row_created_at = 1, row_s3_key = ''videos/7b1e.webm'',
           row_public_url = ''https://chitro.sevalla.storage/a''\<rparr>"
    by code_simp
  from id_and_s3_key_never_change[OF f, of "[other_call]"] f show ?thesis by simp
qed

section \<open>The creation time across upserts\<close>

text \<open>
  C3, as the claim states it, fails: the video \<open>7b1e\<close> is inserted at time 1 and
  upserted again at time 2 with the same values; the stored \<open>created_at\<close> is still 1.
\<close>

theorem created_at_rederived_counterexample:
  "now (uc_env (call_at 2 10 ''https://chitro.sevalla.storage/a'')) = 2 \<and>
   map_option row_created_at (find_row ''7b1e'' (videos (run_upserts
     [call_at 1 10 ''https://chitro.sevalla.storage/a'',
      call_at 2 10 ''https://chitro.sevalla.storage/a''] world0))) = Some 1"
  by code_simp

text \<open>
  C3, amended.  On an upsert of an id that has a row, the stored \<open>created_at\<close> keeps its
  value; the fresh time is in the \<open>createdAt\<close> of the object that
  \<open>createVideoMetadata\<close> returns, not in the table.
\<close>

theorem created_at_kept_on_upsert:
  assumes "find_row vid (videos w) = Some r"
    and "createVideoMetadata e vid fn ct sz key purl w = (Inr m, w')"
  shows "map_option row_created_at (find_row vid (videos w')) = Some (row_created_at r) \<and>
         vm_createdAt m = now e"
proof -
  from createVideoMetadata_result[OF assms(2)]
  have v: "videos w' = upsert_row
           \<lparr>row_id = vid, row_filename = fn, row_content_type = ct, row_size = sz,
            row_created_at = now e, row_s3_key = key, row_public_url = vm_s3Url m\<rparr> (videos w)"
    and m: "m = \<lparr>vm_id = vid, vm_filename = fn, vm_contentType = ct, vm_size = sz,
              vm_createdAt = now e, vm_s3Key = key, vm_s3Url = vm_s3Url m\<rparr>"
    by simp_all
  from find_row_upsert_same[of "\<lparr>row_id = vid, row_filename = fn, row_content_type = ct,
      row_size = sz, row_created_at = now e, row_s3_key = key, row_public_url = vm_s3Url m\<rparr>"
      "videos w" r] assms(1) v
  have "map_option row_created_at (find_row vid (videos w')) = Some (row_created_at r)"
    by simp
  moreover from arg_cong[OF m, of vm_createdAt] have "vm_createdAt m = now e" by simp
  ultimately show ?thesis by simp
qed


theorem created_at_kept_on_upsert_witness:
  "map_option row_created_at (find_row ''7b1e'' (videos
     (snd (createVideoMetadata (env0\<lparr>now := 2\<rparr>) ''7b1e'' ''a.webm'' ''video/webm'' 10
        ''videos/7b1e.webm'' (Some ''https://chitro.sevalla.storage/a'') w_after_first)))) = Some 1 \<and>
   fst (createVideoMetadata (env0\<lparr>now := 2\<rparr>) ''7b1e'' ''a.webm'' ''video/webm'' 10
        ''videos/7b1e.webm'' (Some ''https://chitro.sevalla.storage/a'') w_after_first) =
     Inr \<lparr>vm_id = ''7b1e'', vm_filename = ''a.webm'', vm_contentType = ''video/webm'',
          vm_size = 10, vm_createdAt = 2, vm_s3Key = ''videos/7b1e.webm'',
          vm_s3Url = ''https://chitro.sevalla.storage/a''\<rparr>"
proof -
  have f: "find_row ''7b1e'' (videos w_after_first) =
     Some \<lparr>row_id = ''7b1e'', row_filename = ''a.webm'', row_content_type = ''video/webm'',
           row_size = 10, row_created_at = 1, row_s3_key = ''videos/7b1e.webm'',
           row_public_url = ''https://chitro.sevalla.storage/a''\<rparr>"
    by code_simp
  have m: "fst (createVideoMetadata (env0\<lparr>now := 2\<rparr>) ''7b1e'' ''a.webm'' ''video/webm'' 10
        ''videos/7b1e.webm'' (Some ''https://chitro.sevalla.storage/a'') w_after_first) =
     Inr \<lparr>vm_id = ''7b1e'', vm_filename = ''a.webm'', vm_contentType = ''video/webm'',
          vm_size = 10, vm_createdAt = 2, vm_s3Key = ''videos/7b1e.webm'',
          vm_s3Url = ''https://chitro.sevalla.storage/a''\<rparr>"
    by code_simp
  from created_at_kept_on_upsert[OF f, of "env0\<lparr>now := 2\<rparr>" "''a.webm''" "''video/webm''" 10
      "''videos/7b1e.webm''" "Some ''https://chitro.sevalla.storage/a''" _
      "snd (createVideoMetadata (env0\<lparr>now := 2\<rparr>) ''7b1e'' ''a.webm'' ''video/webm'' 10
        ''videos/7b1e.webm'' (Some ''https://chitro.sevalla.storage/a'') w_after_first)"] m
  show ?thesis by (simp add: prod_eq_iff)
qed

section \<open>Idempotence of the upsert\<close>

lemma createVideoMetadata_url:
  assumes "createVideoMetadata e vid fn ct sz key purl w = (Inr m, w')"
  shows "vm_s3Url m =
     (if purl = None \<or> purl = Some []
      then (if usePresigned e then signedGetUrl e key else publicUrlBase e @ ''/'' @ key)
      else the purl)"
  using assms
  by (auto simp: createVideoMetadata_def ensureVideoTable_def generatePublicUrl_def io_defs
           split: prod.splits sum.splits option.splits if_splits)

text \<open>
  C6, as the claim states it, fails.  The video \<open>7b1e\<close> is upserted twice with the same
  id and the same field values and no public URL, under \<open>S3_USE_PRESIGNED=true\<close>;
  the first call returns, and the signer hands the second call another URL: the table
  after the second call is not the table after the first.
\<close>

theorem upsert_twice_presigned_counterexample:
  "distinct (map row_id (videos world0)) \<and>
   fst (createVideoMetadata env_sign1 ''7b1e'' ''a.webm'' ''video/webm'' 10
          ''videos/7b1e.webm'' None world0) =
     Inr \<lparr>vm_id = ''7b1e'', vm_filename = ''a.webm'', vm_contentType = ''video/webm'',
          vm_size = 10, vm_createdAt = 1000, vm_s3Key = ''videos/7b1e.webm'',
          vm_s3Url = ''https://s3.sevalla.storage/get/videos/7b1e.webm''\<rparr> \<and>
   videos (snd (createVideoMetadata env_sign2 ''7b1e'' ''a.webm'' ''video/webm'' 10
          ''videos/7b1e.webm'' None
          (snd (createVideoMetadata env_sign1 ''7b1e'' ''a.webm'' ''video/webm'' 10
             ''videos/7b1e.webm'' None world0)))) \<noteq>
   videos (snd (createVideoMetadata env_sign1 ''7b1e'' ''a.webm'' ''video/webm'' 10
             ''videos/7b1e.webm'' None world0)) \<and>
   map row_public_url (videos (snd (createVideoMetadata env_sign2 ''7b1e'' ''a.webm''
          ''video/webm'' 10 ''videos/7b1e.webm'' None
          (snd (createVideoMetadata env_sign1 ''7b1e'' ''a.webm'' ''video/webm'' 10
             ''videos/7b1e.webm'' None world0))))) =
     [''https://s3.sevalla.storage/later/videos/7b1e.webm'']"
  by code_simp

text \<open>
  C6, amended.  Two calls of \<open>createVideoMetadata\<close> with the same id and the same field
  values, the first of which returns, leave exactly one row with the id (the table's
  primary key is assumed for the state before).  The table after the second call is the
  table after the first when the public URL is passed, or when both runs derive the
  same URL from the key.
\<close>

theorem createVideoMetadata_twice:
  assumes "distinct (map row_id (videos w))"
    and "createVideoMetadata e1 vid fn ct sz key purl w = (Inr m1, w1)"
    and "createVideoMetadata e2 vid fn ct sz key purl w1 = (res2, w2)"
  shows "length (filter (\<lambda>r. row_id r = vid) (videos w1)) = 1 \<and>
         length (filter (\<lambda>r. row_id r = vid) (videos w2)) = 1 \<and>
         ((\<exists>u. purl = Some u \<and> u \<noteq> []) \<or>
          (usePresigned e2 = usePresigned e1 \<and> publicUrlBase e2 = publicUrlBase e1 \<and>
           signedGetUrl e2 key = signedGetUrl e1 key) \<longrightarrow>
            videos w2 = videos w1)"
proof -
  let ?n1 = "\<lparr>row_id = vid, row_filename = fn, row_content_type = ct, row_size = sz,
            row_created_at = now e1, row_s3_key = key, row_public_url = vm_s3Url m1\<rparr>"
  from createVideoMetadata_result[OF assms(2)]
  have v1: "videos w1 = upsert_row ?n1 (videos w)" by simp
  from distinct_upsert[OF assms(1), of ?n1] v1
  have d1: "distinct (map row_id (videos w1))" by simp
  from count_upsert[OF assms(1), of ?n1] v1
  have one1: "length (filter (\<lambda>r. row_id r = vid) (videos w1)) = 1" by simp
  have one2: "length (filter (\<lambda>r. row_id r = vid) (videos w2)) = 1"
  proof (cases res2)
    case (Inl x)
    with createVideoMetadata_result[OF assms(3)] one1 show ?thesis by simp
  next
    case (Inr m2)
    let ?n2 = "\<lparr>row_id = vid, row_filename = fn, row_content_type = ct, row_size = sz,
            row_created_at = now e2, row_s3_key = key, row_public_url = vm_s3Url m2\<rparr>"
    from createVideoMetadata_result[OF assms(3)] Inr
    have "videos w2 = upsert_row ?n2 (videos w1)" by simp
    with count_upsert[OF d1, of ?n2] show ?thesis by simp
  qed
  have same: "videos w2 = videos w1"
    if u: "(\<exists>u. purl = Some u \<and> u \<noteq> []) \<or>
          (usePresigned e2 = usePresigned e1 \<and> publicUrlBase e2 = publicUrlBase e1 \<and>
           signedGetUrl e2 key = signedGetUrl e1 key)"
  proof (cases res2)
    case (Inl x)
    with createVideoMetadata_result[OF assms(3)] show ?thesis by simp
  next
    case (Inr m2)
    let ?n2 = "\<lparr>row_id = vid, row_filename = fn, row_content_type = ct, row_size = sz,
            row_created_at = now e2, row_s3_key = key, row_public_url = vm_s3Url m2\<rparr>"
    from createVideoMetadata_result[OF assms(3)] Inr
    have v2: "videos w2 = upsert_row ?n2 (videos w1)" by simp
    from assms(3) Inr have c2: "createVideoMetadata e2 vid fn ct sz key purl w1 = (Inr m2, w2)"
      by simp
    from createVideoMetadata_url[OF assms(2)] createVideoMetadata_url[OF c2] u
    have "vm_s3Url m2 = vm_s3Url m1" by auto
    then have "upsert_row ?n2 (upsert_row ?n1 (videos w)) = upsert_row ?n1 (videos w)"
      by (intro upsert_row_twice) simp_all
    with v1 v2 show ?thesis by simp
  qed
  from one1 one2 same show ?thesis by blast
qed

text \<open>
  The video \<open>7b1e\<close> is inserted at time 1000 with its URL passed and upserted again at
  time 2 by a run with another signer: one row, and the table of the first call.
\<close>

theorem createVideoMetadata_twice_witness:
  "distinct (map row_id (videos world0)) \<and>
   fst (createVideoMetadata env0 ''7b1e'' ''a.webm'' ''video/webm'' 10 ''videos/7b1e.webm''
          (Some ''https://chitro.sevalla.storage/a'') world0) =
     Inr \<lparr>vm_id = ''7b1e'', vm_filename = ''a.webm'', vm_contentType = ''video/webm'',
          vm_size = 10, vm_createdAt = 1000, vm_s3Key = ''videos/7b1e.webm'',
          vm_s3Url = ''https://chitro.sevalla.storage/a''\<rparr> \<and>
   length (filter (\<lambda>r. row_id r = ''7b1e'')
     (videos (snd (createVideoMetadata env_later ''7b1e'' ''a.webm'' ''video/webm'' 10
          ''videos/7b1e.webm'' (Some ''https://chitro.sevalla.storage/a'')
          (snd (createVideoMetadata env0 ''7b1e'' ''a.webm'' ''video/webm'' 10
             ''videos/7b1e.webm'' (Some ''https://chitro.sevalla.storage/a'') world0)))))) = 1 \<and>
   videos (snd (createVideoMetadata env_later ''7b1e'' ''a.webm'' ''video/webm'' 10
          ''videos/7b1e.webm'' (Some ''https://chitro.sevalla.storage/a'')
          (snd (createVideoMetadata env0 ''7b1e'' ''a.webm'' ''video/webm'' 10
             ''videos/7b1e.webm'' (Some ''https://chitro.sevalla.storage/a'') world0)))) =
   videos (snd (createVideoMetadata env0 ''7b1e'' ''a.webm'' ''video/webm'' 10
             ''videos/7b1e.webm'' (Some ''https://chitro.sevalla.storage/a'') world0))"
proof -
  have d: "distinct (map row_id (videos world0))" by (simp add: world0_def)
  have m: "fst (createVideoMetadata env0 ''7b1e'' ''a.webm'' ''video/webm'' 10 ''videos/7b1e.webm''
          (Some ''https://chitro.sevalla.storage/a'') world0) =
     Inr \<lparr>vm_id = ''7b1e'', vm_filename = ''a.webm'', vm_contentType = ''video/webm'',
          vm_size = 10, vm_createdAt = 1000, vm_s3Key = ''videos/7b1e.webm'',
          vm_s3Url = ''https://chitro.sevalla.storage/a''\<rparr>"
    by code_simp
  have c1: "createVideoMetadata env0 ''7b1e'' ''a.webm'' ''video/webm'' 10 ''videos/7b1e.webm''
          (Some ''https://chitro.sevalla.storage/a'') world0 =
     (Inr \<lparr>vm_id = ''7b1e'', vm_filename = ''a.webm'', vm_contentType = ''video/webm'',
          vm_size = 10, vm_createdAt = 1000, vm_s3Key = ''videos/7b1e.webm'',
          vm_s3Url = ''https://chitro.sevalla.storage/a''\<rparr>,
      snd (createVideoMetadata env0 ''7b1e'' ''a.webm'' ''video/webm'' 10
             ''videos/7b1e.webm'' (Some ''https://chitro.sevalla.storage/a'') world0))"
    using m by (simp add: prod_eq_iff)
  have c2: "createVideoMetadata env_later ''7b1e'' ''a.webm'' ''video/webm'' 10
          ''videos/7b1e.webm'' (Some ''https://chitro.sevalla.storage/a'')
          (snd (createVideoMetadata env0 ''7b1e'' ''a.webm'' ''video/webm'' 10
             ''videos/7b1e.webm'' (Some ''https://chitro.sevalla.storage/a'') world0)) =
     (fst (createVideoMetadata env_later ''7b1e'' ''a.webm'' ''video/webm'' 10
          ''videos/7b1e.webm'' (Some ''https://chitro.sevalla.storage/a'')
          (snd (createVideoMetadata env0 ''7b1e'' ''a.webm'' ''video/webm'' 10
             ''videos/7b1e.webm'' (Some ''https://chitro.sevalla.storage/a'') world0))),
      snd (createVideoMetadata env_later ''7b1e'' ''a.webm'' ''video/webm'' 10
          ''videos/7b1e.webm'' (Some ''https://chitro.sevalla.storage/a'')
          (snd (createVideoMetadata env0 ''7b1e'' ''a.webm'' ''video/webm'' 10
             ''videos/7b1e.webm'' (Some ''https://chitro.sevalla.storage/a'') world0))))"
    by simp
  from createVideoMetadata_twice[OF d c1 c2] d m show ?thesis by simp
qed

section \<open>The read path\<close>


lemma ensureVideoTable_run:
  "\<not> faults e DbCreateTable \<Longrightarrow> \<not> faults e DbBackfill \<Longrightarrow>
   ensureVideoTable e w =
     (Inr (), w\<lparr>initialized := True,
                trace := trace w @ (if initialized w then []
                                    else [DbCreateTable, DbAddColumn, DbBackfill])\<rparr>)"
  by (simp add: ensureVideoTable_def io_defs split: prod.splits sum.splits)

lemma getVideoMetadata_run:
  "\<not> faults e DbCreateTable \<Longrightarrow> \<not> faults e DbBackfill \<Longrightarrow> \<not> faults e (DbSelectById vid) \<Longrightarrow>
   getVideoMetadata e vid w =
     (Inr (map_option row_to_metadata (find_row vid (videos w))),
      w\<lparr>initialized := True,
        trace := trace w @ (if initialized w then []
                            else [DbCreateTable, DbAddColumn, DbBackfill]) @ [DbSelectById vid]\<rparr>)"
  by (simp add: getVideoMetadata_def ensureVideoTable_run io_defs)

lemma videos_getVideoMetadata: "videos (snd (getVideoMetadata e vid w)) = videos w"
  by (simp add: getVideoMetadata_def ensureVideoTable_def io_defs split: prod.splits sum.splits)

text \<open>
  C1, as the claim states it, fails: in \<open>w_hit\<close> the group \<open>videos\<close> holds a snapshot
  under the id \<open>7b1e\<close>, and GetVideo answers 404 after asking the database.
\<close>

theorem getById_cache_hit_counterexample:
  "map_of (cache w_hit) (''videos'', ''7b1e'') =
     Some (CVideo \<lparr>vm_id = ''7b1e'', vm_filename = ''a.webm'', vm_contentType = ''video/webm'',
       vm_size = 10, vm_createdAt = 1000, vm_s3Key = ''videos/7b1e.webm'',
       vm_s3Url = ''https://chitro.sevalla.storage/videos/7b1e.webm''\<rparr>) \<and>
   fst (GetVideo_handler env0 ''7b1e'' w_hit) =
     \<lparr>status = 404, body = BError ''Video not found''\<rparr> \<and>
   trace (snd (GetVideo_handler env0 ''7b1e'' w_hit)) = trace w_hit @ [DbSelectById ''7b1e'']"
  by code_simp

text \<open>
  C1, amended.  GetVideo neither reads nor writes the state store: it asks the database
  every time; when the database answers, the response is 200 with the stored row or 404
  when there is none, and in every case the state store and the table are left as they
  were (no write-through, no negative caching).
\<close>

theorem GetVideo_reads_store_not_cache:
  "cache (snd (GetVideo_handler e videoId w)) = cache w \<and>
   videos (snd (GetVideo_handler e videoId w)) = videos w \<and>
   (\<not> faults e DbCreateTable \<and> \<not> faults e DbBackfill \<and> \<not> faults e (DbSelectById videoId) \<longrightarrow>
      fst (GetVideo_handler e videoId w) =
        (case find_row videoId (videos w) of
           None \<Rightarrow> \<lparr>status = 404, body = BError ''Video not found''\<rparr>
         | Some r \<Rightarrow> \<lparr>status = 200, body = BValue (CVideo (row_to_metadata r))\<rparr>) \<and>
      trace (snd (GetVideo_handler e videoId w)) =
        trace w @ (if initialized w then [] else [DbCreateTable, DbAddColumn, DbBackfill])
          @ [DbSelectById videoId])"
proof (intro conjI impI)
  show "cache (snd (GetVideo_handler e videoId w)) = cache w"
    by (simp add: GetVideo_handler_def api_catch_def bnd_def ret_def
          cache_getVideoMetadata[of e videoId w, symmetric]
          split: prod.splits sum.splits option.splits)
  show "videos (snd (GetVideo_handler e videoId w)) = videos w"
    by (simp add: GetVideo_handler_def api_catch_def bnd_def ret_def
          videos_getVideoMetadata[of e videoId w, symmetric]
          split: prod.splits sum.splits option.splits)
next
  assume a: "\<not> faults e DbCreateTable \<and> \<not> faults e DbBackfill \<and> \<not> faults e (DbSelectById videoId)"
  then show "fst (GetVideo_handler e videoId w) =
        (case find_row videoId (videos w) of
           None \<Rightarrow> \<lparr>status = 404, body = BError ''Video not found''\<rparr>
         | Some r \<Rightarrow> \<lparr>status = 200, body = BValue (CVideo (row_to_metadata r))\<rparr>)"
    by (simp add: GetVideo_handler_def api_catch_def bnd_def ret_def getVideoMetadata_run
          split: option.splits)
  from a show "trace (snd (GetVideo_handler e videoId w)) =
        trace w @ (if initialized w then [] else [DbCreateTable, DbAddColumn, DbBackfill])
          @ [DbSelectById videoId]"
    by (simp add: GetVideo_handler_def api_catch_def bnd_def ret_def getVideoMetadata_run
          split: option.splits)
qed

text \<open>After the upload of \<open>7b1e\<close>, GetVideo answers the stored row.\<close>

theorem GetVideo_reads_store_not_cache_witness:
  "\<not> faults env0 DbCreateTable \<and> \<not> faults env0 DbBackfill \<and>
   \<not> faults env0 (DbSelectById ''7b1e'') \<and>
   find_row ''7b1e'' (videos (snd (UploadVideo_handler env0 req_ok world0))) =
     Some \<lparr>row_id = ''7b1e'', row_filename = ''a.webm'', row_content_type = ''video/webm'',
           row_size = 10, row_created_at = 1000, row_s3_key = ''videos/7b1e.webm'',
           row_public_url = ''https://chitro.sevalla.storage/videos/7b1e.webm''\<rparr> \<and>
   fst (GetVideo_handler env0 ''7b1e'' (snd (UploadVideo_handler env0 req_ok world0))) =
     \<lparr>status = 200, body = BValue (CVideo
       \<lparr>vm_id = ''7b1e'', vm_filename = ''a.webm'', vm_contentType = ''video/webm'',
        vm_size = 10, vm_createdAt = 1000, vm_s3Key = ''videos/7b1e.webm'',
        vm_s3Url = ''https://chitro.sevalla.storage/videos/7b1e.webm''\<rparr>)\<rparr> \<and>
   cache (snd (GetVideo_handler env0 ''7b1e'' (snd (UploadVideo_handler env0 req_ok world0)))) =
     cache (snd (UploadVideo_handler env0 req_ok world0))"
proof -
  have n: "\<not> faults env0 DbCreateTable \<and> \<not> faults env0 DbBackfill \<and>
           \<not> faults env0 (DbSelectById ''7b1e'')"
    by (simp add: env0_def)
  have f: "find_row ''7b1e'' (videos (snd (UploadVideo_handler env0 req_ok world0))) =
     Some \<lparr>row_id = ''7b1e'', row_filename = ''a.webm'', row_content_type = ''video/webm'',
           row_size = 10, row_created_at = 1000, row_s3_key = ''videos/7b1e.webm'',
           row_public_url = ''https://chitro.sevalla.storage/videos/7b1e.webm''\<rparr>"
    by code_simp
  from GetVideo_reads_store_not_cache[of env0 "''7b1e''"
      "snd (UploadVideo_handler env0 req_ok world0)"] n f
  show ?thesis by (simp add: row_to_metadata_def)
qed

section \<open>Failures of the state store\<close>

lemma find_row_upsert_id: "find_row (row_id n) (upsert_row n rows) \<noteq> None"
  using list_ex_upsert[of n rows] by (simp add: find_row_None_iff)

lemma uploadVideo_run:
  "\<not> faults e (S3Put (make_s3Key (uuid e) fn)) \<Longrightarrow>
   \<not> faults e (S3PresignGet (make_s3Key (uuid e) fn)) \<Longrightarrow>
   uploadVideo e buf fn ct w =
     (Inr (uuid e, make_s3Key (uuid e) fn, publicUrlBase e @ ''/'' @ make_s3Key (uuid e) fn),
      w\<lparr>blobs := AList.update (make_s3Key (uuid e) fn) buf (blobs w),
        trace := trace w @ [S3Put (make_s3Key (uuid e) fn),
                            S3PresignGet (make_s3Key (uuid e) fn)]\<rparr>)"
  by (simp add: uploadVideo_def io_defs Let_def)

lemma createVideoMetadata_run:
  "\<not> faults e DbCreateTable \<Longrightarrow> \<not> faults e DbBackfill \<Longrightarrow> \<not> faults e (DbUpsert vid) \<Longrightarrow>
   u \<noteq> [] \<Longrightarrow>
   createVideoMetadata e vid fn ct sz key (Some u) w =
     (Inr \<lparr>vm_id = vid, vm_filename = fn, vm_contentType = ct, vm_size = sz,
           vm_createdAt = now e, vm_s3Key = key, vm_s3Url = u\<rparr>,
      w\<lparr>initialized := True,
        videos := upsert_row \<lparr>row_id = vid, row_filename = fn, row_content_type = ct,
           row_size = sz, row_created_at = now e, row_s3_key = key, row_public_url = u\<rparr>
           (videos w),
        trace := trace w @ (if initialized w then []
                            else [DbCreateTable, DbAddColumn, DbBackfill]) @ [DbUpsert vid]\<rparr>)"
  by (simp add: createVideoMetadata_def ensureVideoTable_run io_defs)

text \<open>
  C2, as the claim states it, fails: the bucket and the database accept the upload of
  \<open>7b1e\<close>, the write to the group \<open>videos\<close> throws, and the caller gets status 500.
\<close>

theorem cache_failure_not_fatal_counterexample:
  "faults env_set_fails (StateSet ''videos'' ''7b1e'') \<and>
   fst (UploadVideo_handler env_set_fails req_ok world0) =
     \<lparr>status = 500, body = BException (Failed (StateSet ''videos'' ''7b1e''))\<rparr> \<and>
   map_of (blobs (snd (UploadVideo_handler env_set_fails req_ok world0))) ''videos/7b1e.webm'' =
     Some ''0123456789'' \<and>
   find_row ''7b1e'' (videos (snd (UploadVideo_handler env_set_fails req_ok world0))) =
     Some \<lparr>row_id = ''7b1e'', row_filename = ''a.webm'', row_content_type = ''video/webm'',
           row_size = 10, row_created_at = 1000, row_s3_key = ''videos/7b1e.webm'',
           row_public_url = ''https://chitro.sevalla.storage/videos/7b1e.webm''\<rparr>"
  by code_simp

text \<open>
  C2, amended.  No call of the state store has a catch of its own; a failure is caught
  by the handler's outer catch and answered with status 500.  In the direct upload, when
  the bucket and the database have accepted the upload and the cache write or the list
  invalidation throws, the answer is 500, the blob and the row stay written and no
  completion signal is emitted.  In the listing, when the cache read throws, the answer
  is 500 and the database is not asked.
\<close>

theorem cache_failure_answers_500:
  "(upload_payload e req = Some (buf, fn, ct) \<and> buf \<noteq> [] \<and>
    \<not> faults e (S3Put (make_s3Key (uuid e) fn)) \<and>
    \<not> faults e (S3PresignGet (make_s3Key (uuid e) fn)) \<and>
    \<not> faults e DbCreateTable \<and> \<not> faults e DbBackfill \<and> \<not> faults e (DbUpsert (uuid e)) \<and>
    (faults e (StateSet ''videos'' (uuid e)) \<or> faults e (StateClear ''video-lists'')) \<longrightarrow>
      status (fst (UploadVideo_handler e req w)) = 500 \<and>
      map_of (blobs (snd (UploadVideo_handler e req w))) (make_s3Key (uuid e) fn) = Some buf \<and>
      find_row (uuid e) (videos (snd (UploadVideo_handler e req w))) \<noteq> None \<and>
      emitted (snd (UploadVideo_handler e req w)) = emitted w) \<and>
   (faults e (StateGet ''video-lists'' (''list:'' @ render_number (limit_of q))) \<longrightarrow>
      fst (ListVideos_handler e q w') =
        \<lparr>status = 500, body = BException
           (Failed (StateGet ''video-lists'' (''list:'' @ render_number (limit_of q))))\<rparr> \<and>
      trace (snd (ListVideos_handler e q w')) =
        trace w' @ [StateGet ''video-lists'' (''list:'' @ render_number (limit_of q))])"
proof (intro conjI impI)
  assume a: "upload_payload e req = Some (buf, fn, ct) \<and> buf \<noteq> [] \<and>
    \<not> faults e (S3Put (make_s3Key (uuid e) fn)) \<and>
    \<not> faults e (S3PresignGet (make_s3Key (uuid e) fn)) \<and>
    \<not> faults e DbCreateTable \<and> \<not> faults e DbBackfill \<and> \<not> faults e (DbUpsert (uuid e)) \<and>
    (faults e (StateSet ''videos'' (uuid e)) \<or> faults e (StateClear ''video-lists''))"
  from a show "status (fst (UploadVideo_handler e req w)) = 500"
    by (auto simp: UploadVideo_handler_def api_catch_def bnd_def ret_def uploadVideo_run
          createVideoMetadata_run state_set_def state_clear_def attempt_def modify_def)
  from a show "map_of (blobs (snd (UploadVideo_handler e req w))) (make_s3Key (uuid e) fn) = Some buf"
    by (auto simp: UploadVideo_handler_def api_catch_def bnd_def ret_def uploadVideo_run
          createVideoMetadata_run state_set_def state_clear_def attempt_def modify_def
          AList.update_conv')
  from a show "find_row (uuid e) (videos (snd (UploadVideo_handler e req w))) \<noteq> None"
    using find_row_upsert_id[of "\<lparr>row_id = uuid e, row_filename = fn, row_content_type = ct,
           row_size = int (length buf), row_created_at = now e, row_s3_key = make_s3Key (uuid e) fn,
           row_public_url = publicUrlBase e @ ''/'' @ make_s3Key (uuid e) fn\<rparr>" "videos w"]
    by (auto simp: UploadVideo_handler_def api_catch_def bnd_def ret_def uploadVideo_run
          createVideoMetadata_run state_set_def state_clear_def attempt_def modify_def)
  from a show "emitted (snd (UploadVideo_handler e req w)) = emitted w"
    by (auto simp: UploadVideo_handler_def api_catch_def bnd_def ret_def uploadVideo_run
          createVideoMetadata_run state_set_def state_clear_def attempt_def modify_def)
next
  assume g: "faults e (StateGet ''video-lists'' (''list:'' @ render_number (limit_of q)))"
  then show "fst (ListVideos_handler e q w') =
        \<lparr>status = 500, body = BException
           (Failed (StateGet ''video-lists'' (''list:'' @ render_number (limit_of q))))\<rparr>"
    by (simp add: ListVideos_handler_def api_catch_def bnd_def state_get_def attempt_def Let_def)
  from g show "trace (snd (ListVideos_handler e q w')) =
        trace w' @ [StateGet ''video-lists'' (''list:'' @ render_number (limit_of q))]"
    by (simp add: ListVideos_handler_def api_catch_def bnd_def state_get_def attempt_def Let_def)
qed

theorem cache_failure_answers_500_witness:
  "upload_payload env_set_fails req_ok = Some (''0123456789'', ''a.webm'', ''video/webm'') \<and>
   faults env_set_fails (StateSet ''videos'' (uuid env_set_fails)) \<and>
   status (fst (UploadVideo_handler env_set_fails req_ok world0)) = 500 \<and>
   find_row (uuid env_set_fails) (videos (snd (UploadVideo_handler env_set_fails req_ok world0)))
     \<noteq> None \<and>
   faults env_get_fails (StateGet ''video-lists'' (''list:'' @ render_number (limit_of QAbsent))) \<and>
   status (fst (ListVideos_handler env_get_fails QAbsent world0)) = 500"
proof -
  have p: "upload_payload env_set_fails req_ok = Some (''0123456789'', ''a.webm'', ''video/webm'')"
    by code_simp
  have n: "''0123456789'' \<noteq> [] \<and>
    \<not> faults env_set_fails (S3Put (make_s3Key (uuid env_set_fails) ''a.webm'')) \<and>
    \<not> faults env_set_fails (S3PresignGet (make_s3Key (uuid env_set_fails) ''a.webm'')) \<and>
    \<not> faults env_set_fails DbCreateTable \<and> \<not> faults env_set_fails DbBackfill \<and>
    \<not> faults env_set_fails (DbUpsert (uuid env_set_fails))"
    by (simp add: env_set_fails_def env0_def)
  have s: "faults env_set_fails (StateSet ''videos'' (uuid env_set_fails))"
    by (simp add: env_set_fails_def env0_def)
  have g: "faults env_get_fails (StateGet ''video-lists'' (''list:'' @ render_number (limit_of QAbsent)))"
    by code_simp
  from cache_failure_answers_500[of env_set_fails req_ok "''0123456789''" "''a.webm''"
      "''video/webm''" world0, THEN conjunct1] p n s
  have 1: "status (fst (UploadVideo_handler env_set_fails req_ok world0)) = 500 \<and>
      find_row (uuid env_set_fails) (videos (snd (UploadVideo_handler env_set_fails req_ok world0)))
        \<noteq> None"
    by blast
  from cache_failure_answers_500[where e = env_get_fails and q = QAbsent and w' = world0,
      THEN conjunct2] g
  have 2: "status (fst (ListVideos_handler env_get_fails QAbsent world0)) = 500"
    by simp
  from p s g 1 2 show ?thesis by blast
qed

section \<open>The delete path\<close>

lemma find_row_filter_self: "find_row vid (filter (\<lambda>x. row_id x \<noteq> vid) rows) = None"
  by (simp add: find_row_None_iff list_ex_iff)

lemma deleteVideo_run:
  "\<not> faults e DbCreateTable \<Longrightarrow> \<not> faults e DbBackfill \<Longrightarrow> \<not> faults e (DbDelete vid) \<Longrightarrow>
   deleteVideo e vid w =
     (Inr (find_row vid (videos w) \<noteq> None),
      w\<lparr>initialized := True,
        videos := filter (\<lambda>x. row_id x \<noteq> vid) (videos w),
        trace := trace w @ (if initialized w then []
                            else [DbCreateTable, DbAddColumn, DbBackfill]) @ [DbDelete vid]\<rparr>)"
  by (simp add: deleteVideo_def ensureVideoTable_run io_defs find_row_None_iff)

lemma deleteVideo_result:
  assumes "deleteVideo e vid w = (res, w')"
  shows "cache w' = cache w \<and>
    (case res of
       Inl x \<Rightarrow> videos w' = videos w
     | Inr d \<Rightarrow> videos w' = filter (\<lambda>x. row_id x \<noteq> vid) (videos w))"
  using assms
  by (auto simp: deleteVideo_def ensureVideoTable_def io_defs
           split: prod.splits sum.splits if_splits)

lemma videos_state_delete: "videos (snd (state_delete e g k w)) = videos w"
  by (simp add: state_delete_def io_defs split: prod.splits sum.splits)

lemma videos_emit: "videos (snd (emit e topic ev w)) = videos w"
  by (simp add: emit_def io_defs split: prod.splits sum.splits)

lemma snd_api_catch: "snd (api_catch m w) = snd (m w)"
  by (simp add: api_catch_def split: prod.splits sum.splits)

lemma DeleteVideo_cache_only_after_delete:
  assumes "find_row vid (videos (snd (DeleteVideo_handler e vid w))) \<noteq> None"
  shows "cache (snd (DeleteVideo_handler e vid w)) = cache w"
proof -
  obtain r1 w1 where g: "getVideoMetadata e vid w = (r1, w1)"
    by (cases "getVideoMetadata e vid w")
  have c1: "cache w1 = cache w"
    using cache_getVideoMetadata[of e vid w] g by simp
  obtain r2 w2 where d: "deleteVideo e vid w1 = (r2, w2)"
    by (cases "deleteVideo e vid w1")
  have c2: "cache w2 = cache w1"
    using deleteVideo_result[OF d] by simp
  show ?thesis
  proof (cases r1)
    case (Inl x)
    with g c1 show ?thesis
      by (simp add: DeleteVideo_handler_def api_catch_def bnd_def)
  next
    case r1: (Inr video)
    show ?thesis
    proof (cases video)
      case None
      with g c1 r1 show ?thesis
        by (simp add: DeleteVideo_handler_def api_catch_def bnd_def ret_def)
    next
      case (Some v)
      show ?thesis
      proof (cases r2)
        case (Inl x)
        with g d c1 c2 r1 Some show ?thesis
          by (simp add: DeleteVideo_handler_def api_catch_def bnd_def)
      next
        case r2: (Inr deleted)
        from deleteVideo_result[OF d] r2
        have gone: "find_row vid (videos w2) = None"
          by (simp add: find_row_filter_self)
        show ?thesis
        proof (cases deleted)
          case False
          with g d c1 c2 r1 r2 Some show ?thesis
            by (simp add: DeleteVideo_handler_def api_catch_def bnd_def ret_def)
        next
          case True
          let ?tail = "bnd (state_delete e ''videos'' vid) (\<lambda>_.
             bnd (state_clear e ''video-lists'') (\<lambda>_.
             bnd (emit e ''video-deleted'' (VideoDeleted vid (vm_s3Key v) (vm_filename v))) (\<lambda>_.
             ret \<lparr>status = 200, body = BDeleted ''Video deleted successfully'' vid\<rparr>)))"
          have "keeps videos (\<lambda>rows. find_row vid rows = None) ?tail"
            by (intro keeps_struct keeps_videos_frame
                  keeps_same[of videos "state_delete e g k" for g k, OF videos_state_delete]
                  keeps_same[of videos "emit e topic ev" for topic ev, OF videos_emit])
          with gone have "find_row vid (videos (snd (?tail w2))) = None"
            by (simp add: keeps_def)
          moreover from g d r1 r2 Some True
          have "snd (DeleteVideo_handler e vid w) = snd (?tail w2)"
            by (simp add: DeleteVideo_handler_def snd_api_catch bnd_def)
          ultimately show ?thesis using assms by simp
        qed
      qed
    qed
  qed
qed

text \<open>
  C10.  DeleteVideo removes the row first.  When the database has no row for the id, the
  answer is 404 and neither the state store nor the table changes.  When the row is
  there and no call fails, the answer is 200, the row is gone, and the calls after the
  lookup are, in this order: the DELETE, the eviction of the id from \<open>videos\<close>, the
  clearing of \<open>video-lists\<close>, the event.  Whatever fails, the state store is changed
  only if the row is gone from the table.
\<close>

theorem DeleteVideo_store_first_then_cache:
  "(\<not> faults e DbCreateTable \<and> \<not> faults e DbBackfill \<and> \<not> faults e (DbSelectById vid) \<and>
    find_row vid (videos w) = None \<longrightarrow>
      fst (DeleteVideo_handler e vid w) = \<lparr>status = 404, body = BError ''Video not found''\<rparr> \<and>
      cache (snd (DeleteVideo_handler e vid w)) = cache w \<and>
      videos (snd (DeleteVideo_handler e vid w)) = videos w) \<and>
   (\<not> faults e DbCreateTable \<and> \<not> faults e DbBackfill \<and> \<not> faults e (DbSelectById vid) \<and>
    \<not> faults e (DbDelete vid) \<and> \<not> faults e (StateDelete ''videos'' vid) \<and>
    \<not> faults e (StateClear ''video-lists'') \<and> \<not> faults e (Emit ''video-deleted'') \<and>
    find_row vid (videos w) = Some r \<longrightarrow>
      fst (DeleteVideo_handler e vid w) =
        \<lparr>status = 200, body = BDeleted ''Video deleted successfully'' vid\<rparr> \<and>
      videos (snd (DeleteVideo_handler e vid w)) = filter (\<lambda>x. row_id x \<noteq> vid) (videos w) \<and>
      cache (snd (DeleteVideo_handler e vid w)) =
        filter (\<lambda>p. fst (fst p) \<noteq> ''video-lists'') (AList.delete (''videos'', vid) (cache w)) \<and>
      trace (snd (DeleteVideo_handler e vid w)) =
        trace w @ (if initialized w then [] else [DbCreateTable, DbAddColumn, DbBackfill]) @
          [DbSelectById vid, DbDelete vid, StateDelete ''videos'' vid,
           StateClear ''video-lists'', Emit ''video-deleted'']) \<and>
   (find_row vid (videos (snd (DeleteVideo_handler e vid w))) \<noteq> None \<longrightarrow>
      cache (snd (DeleteVideo_handler e vid w)) = cache w)"
proof (intro conjI impI)
  assume a: "\<not> faults e DbCreateTable \<and> \<not> faults e DbBackfill \<and> \<not> faults e (DbSelectById vid) \<and>
    find_row vid (videos w) = None"
  then show "fst (DeleteVideo_handler e vid w) = \<lparr>status = 404, body = BError ''Video not found''\<rparr>"
    by (simp add: DeleteVideo_handler_def api_catch_def bnd_def ret_def getVideoMetadata_run)
  from a show "cache (snd (DeleteVideo_handler e vid w)) = cache w"
    by (simp add: DeleteVideo_handler_def api_catch_def bnd_def ret_def getVideoMetadata_run)
  from a show "videos (snd (DeleteVideo_handler e vid w)) = videos w"
    by (simp add: DeleteVideo_handler_def api_catch_def bnd_def ret_def getVideoMetadata_run)
next
  assume b: "\<not> faults e DbCreateTable \<and> \<not> faults e DbBackfill \<and> \<not> faults e (DbSelectById vid) \<and>
    \<not> faults e (DbDelete vid) \<and> \<not> faults e (StateDelete ''videos'' vid) \<and>
    \<not> faults e (StateClear ''video-lists'') \<and> \<not> faults e (Emit ''video-deleted'') \<and>
    find_row vid (videos w) = Some r"
  then show "fst (DeleteVideo_handler e vid w) =
        \<lparr>status = 200, body = BDeleted ''Video deleted successfully'' vid\<rparr>"
    by (simp add: DeleteVideo_handler_def api_catch_def bnd_def ret_def getVideoMetadata_run
          deleteVideo_run state_delete_def state_clear_def emit_def attempt_def modify_def)
  from b show "videos (snd (DeleteVideo_handler e vid w)) = filter (\<lambda>x. row_id x \<noteq> vid) (videos w)"
    by (simp add: DeleteVideo_handler_def api_catch_def bnd_def ret_def getVideoMetadata_run
          deleteVideo_run state_delete_def state_clear_def emit_def attempt_def modify_def)
  from b show "cache (snd (DeleteVideo_handler e vid w)) =
        filter (\<lambda>p. fst (fst p) \<noteq> ''video-lists'') (AList.delete (''videos'', vid) (cache w))"
    by (simp add: DeleteVideo_handler_def api_catch_def bnd_def ret_def getVideoMetadata_run
          deleteVideo_run state_delete_def state_clear_def emit_def attempt_def modify_def)
  from b show "trace (snd (DeleteVideo_handler e vid w)) =
        trace w @ (if initialized w then [] else [DbCreateTable, DbAddColumn, DbBackfill]) @
          [DbSelectById vid, DbDelete vid, StateDelete ''videos'' vid,
           StateClear ''video-lists'', Emit ''video-deleted'']"
    by (simp add: DeleteVideo_handler_def api_catch_def bnd_def ret_def getVideoMetadata_run
          deleteVideo_run state_delete_def state_clear_def emit_def attempt_def modify_def)
next
  assume "find_row vid (videos (snd (DeleteVideo_handler e vid w))) \<noteq> None"
  then show "cache (snd (DeleteVideo_handler e vid w)) = cache w"
    by (rule DeleteVideo_cache_only_after_delete)
qed

text \<open>
  On the empty table the answer is 404; after the upload of \<open>7b1e\<close> the answer is 200
  and the row is gone.
\<close>

theorem DeleteVideo_store_first_then_cache_witness:
  "find_row ''7b1e'' (videos world0) = None \<and>
   fst (DeleteVideo_handler env0 ''7b1e'' world0) =
     \<lparr>status = 404, body = BError ''Video not found''\<rparr> \<and>
   cache (snd (DeleteVideo_handler env0 ''7b1e'' world0)) = cache world0 \<and>
   find_row ''7b1e'' (videos (snd (UploadVideo_handler env0 req_ok world0))) =
     Some \<lparr>row_id = ''7b1e'', row_filename = ''a.webm'', row_content_type = ''video/webm'',
           row_size = 10, row_created_at = 1000, row_s3_key = ''videos/7b1e.webm'',
           row_public_url = ''https://chitro.sevalla.storage/videos/7b1e.webm''\<rparr> \<and>
   fst (DeleteVideo_handler env0 ''7b1e'' (snd (UploadVideo_handler env0 req_ok world0))) =
     \<lparr>status = 200, body = BDeleted ''Video deleted successfully'' ''7b1e''\<rparr> \<and>
   trace (snd (DeleteVideo_handler env0 ''7b1e'' (snd (UploadVideo_handler env0 req_ok world0)))) =
     trace (snd (UploadVideo_handler env0 req_ok world0)) @
       (if initialized (snd (UploadVideo_handler env0 req_ok world0)) then []
        else [DbCreateTable, DbAddColumn, DbBackfill]) @
       [DbSelectById ''7b1e'', DbDelete ''7b1e'', StateDelete ''videos'' ''7b1e'',
        StateClear ''video-lists'', Emit ''video-deleted'']"
proof -
  have n: "\<not> faults env0 DbCreateTable \<and> \<not> faults env0 DbBackfill \<and>
    \<not> faults env0 (DbSelectById ''7b1e'') \<and> \<not> faults env0 (DbDelete ''7b1e'') \<and>
    \<not> faults env0 (StateDelete ''videos'' ''7b1e'') \<and>
    \<not> faults env0 (StateClear ''video-lists'') \<and> \<not> faults env0 (Emit ''video-deleted'')"
    by (simp add: env0_def)
  have e: "find_row ''7b1e'' (videos world0) = None"
    by (simp add: world0_def find_row_def)
  have f: "find_row ''7b1e'' (videos (snd (UploadVideo_handler env0 req_ok world0))) =
     Some \<lparr>row_id = ''7b1e'', row_filename = ''a.webm'', row_content_type = ''video/webm'',
           row_size = 10, row_created_at = 1000, row_s3_key = ''videos/7b1e.webm'',
           row_public_url = ''https://chitro.sevalla.storage/videos/7b1e.webm''\<rparr>"
    by code_simp
  from DeleteVideo_store_first_then_cache[of env0 "''7b1e''" world0, THEN conjunct1] n e
  have 1: "fst (DeleteVideo_handler env0 ''7b1e'' world0) =
     \<lparr>status = 404, body = BError ''Video not found''\<rparr> \<and>
     cache (snd (DeleteVideo_handler env0 ''7b1e'' world0)) = cache world0"
    by blast
  from DeleteVideo_store_first_then_cache[of env0 "''7b1e''"
      "snd (UploadVideo_handler env0 req_ok world0)", THEN conjunct2, THEN conjunct1] n f
  have 2: "fst (DeleteVideo_handler env0 ''7b1e'' (snd (UploadVideo_handler env0 req_ok world0))) =
     \<lparr>status = 200, body = BDeleted ''Video deleted successfully'' ''7b1e''\<rparr> \<and>
   trace (snd (DeleteVideo_handler env0 ''7b1e'' (snd (UploadVideo_handler env0 req_ok world0)))) =
     trace (snd (UploadVideo_handler env0 req_ok world0)) @
       (if initialized (snd (UploadVideo_handler env0 req_ok world0)) then []
        else [DbCreateTable, DbAddColumn, DbBackfill]) @
       [DbSelectById ''7b1e'', DbDelete ''7b1e'', StateDelete ''videos'' ''7b1e'',
        StateClear ''video-lists'', Emit ''video-deleted'']"
    by blast
  from e f 1 2 show ?thesis by blast
qed

end
